theory Spec2Isabelle
  imports Complex_Main
begin

section \<open>Python strings\<close>

text \<open>
  A Python \<^verbatim>\<open>str\<close> is a sequence of Unicode code points, so it is modelled as a list
  of integers (one per code point); \<open>length\<close> is then Python's \<^verbatim>\<open>len\<close>. Chinese
  literals of the source are written as lists of code points, with the code points and a
  gloss in the accompanying text. ASCII literals are written with \<open>u\<close>.
\<close>

type_synonym ustr = "int list"

definition u :: "string \<Rightarrow> ustr" where
  "u s = map of_char s"

definition in_ranges :: "(int \<times> int) list \<Rightarrow> int \<Rightarrow> bool" where
  "in_ranges rs c = list_ex (\<lambda>(lo, hi). lo \<le> c \<and> c \<le> hi) rs"

text \<open>
  The characters for which \<^verbatim>\<open>str.isdecimal\<close> holds (Unicode category Nd, Unicode 14 as
  shipped with CPython 3.11); \<^verbatim>\<open>\d\<close> of the \<^verbatim>\<open>re\<close> module matches exactly these.
\<close>

definition decimal_ranges :: "(int \<times> int) list" where
  "decimal_ranges =
    [(0x30, 0x39), (0x660, 0x669), (0x6F0, 0x6F9), (0x7C0, 0x7C9), (0x966, 0x96F),
     (0x9E6, 0x9EF), (0xA66, 0xA6F), (0xAE6, 0xAEF), (0xB66, 0xB6F), (0xBE6, 0xBEF),
     (0xC66, 0xC6F), (0xCE6, 0xCEF), (0xD66, 0xD6F), (0xDE6, 0xDEF), (0xE50, 0xE59),
     (0xED0, 0xED9), (0xF20, 0xF29), (0x1040, 0x1049), (0x1090, 0x1099), (0x17E0, 0x17E9),
     (0x1810, 0x1819), (0x1946, 0x194F), (0x19D0, 0x19D9), (0x1A80, 0x1A89), (0x1A90, 0x1A99),
     (0x1B50, 0x1B59), (0x1BB0, 0x1BB9), (0x1C40, 0x1C49), (0x1C50, 0x1C59), (0xA620, 0xA629),
     (0xA8D0, 0xA8D9), (0xA900, 0xA909), (0xA9D0, 0xA9D9), (0xA9F0, 0xA9F9), (0xAA50, 0xAA59),
     (0xABF0, 0xABF9), (0xFF10, 0xFF19), (0x104A0, 0x104A9), (0x10D30, 0x10D39),
     (0x11066, 0x1106F), (0x110F0, 0x110F9), (0x11136, 0x1113F), (0x111D0, 0x111D9),
     (0x112F0, 0x112F9), (0x11450, 0x11459), (0x114D0, 0x114D9), (0x11650, 0x11659),
     (0x116C0, 0x116C9), (0x11730, 0x11739), (0x118E0, 0x118E9), (0x11950, 0x11959),
     (0x11C50, 0x11C59), (0x11D50, 0x11D59), (0x11DA0, 0x11DA9), (0x16A60, 0x16A69),
     (0x16AC0, 0x16AC9), (0x16B50, 0x16B59), (0x1D7CE, 0x1D7FF), (0x1E140, 0x1E149),
     (0x1E2F0, 0x1E2F9), (0x1E950, 0x1E959), (0x1FBF0, 0x1FBF9)]"

text \<open>
  The further characters for which \<^verbatim>\<open>str.isdigit\<close> holds (superscripts, circled digits
  and the like: Numeric_Type=Digit).
\<close>

definition other_digit_ranges :: "(int \<times> int) list" where
  "other_digit_ranges =
    [(0xB2, 0xB3), (0xB9, 0xB9), (0x1369, 0x1371), (0x19DA, 0x19DA), (0x2070, 0x2070),
     (0x2074, 0x2079), (0x2080, 0x2089), (0x2460, 0x2468), (0x2474, 0x247C), (0x2488, 0x2490),
     (0x24EA, 0x24EA), (0x24F5, 0x24FD), (0x24FF, 0x24FF), (0x2776, 0x277E), (0x2780, 0x2788),
     (0x278A, 0x2792), (0x10A40, 0x10A43), (0x10E60, 0x10E68), (0x11052, 0x1105A),
     (0x1F100, 0x1F10A)]"

text \<open>The characters for which \<^verbatim>\<open>str.isspace\<close> holds; \<^verbatim>\<open>\s\<close> matches these.\<close>

definition space_ranges :: "(int \<times> int) list" where
  "space_ranges =
    [(0x9, 0xD), (0x1C, 0x20), (0x85, 0x85), (0xA0, 0xA0), (0x1680, 0x1680), (0x2000, 0x200A),
     (0x2028, 0x2029), (0x202F, 0x202F), (0x205F, 0x205F), (0x3000, 0x3000)]"

definition isdecimal_chr :: "int \<Rightarrow> bool" where
  "isdecimal_chr c = in_ranges decimal_ranges c"

definition isdigit_chr :: "int \<Rightarrow> bool" where
  "isdigit_chr c = (in_ranges decimal_ranges c \<or> in_ranges other_digit_ranges c)"

definition isspace_chr :: "int \<Rightarrow> bool" where
  "isspace_chr c = in_ranges space_ranges c"

text \<open>\<^verbatim>\<open>s.isdigit()\<close>: every character is a digit and there is at least one.\<close>

definition py_isdigit :: "ustr \<Rightarrow> bool" where
  "py_isdigit s = (s \<noteq> [] \<and> list_all isdigit_chr s)"

text \<open>\<^verbatim>\<open>s.strip()\<close>, \<^verbatim>\<open>s.rstrip()\<close> and \<^verbatim>\<open>s.rstrip(chars)\<close>.\<close>

definition py_rstrip :: "ustr \<Rightarrow> ustr" where
  "py_rstrip s = rev (dropWhile isspace_chr (rev s))"

definition py_strip :: "ustr \<Rightarrow> ustr" where
  "py_strip s = py_rstrip (dropWhile isspace_chr s)"

definition py_rstrip_chars :: "ustr \<Rightarrow> ustr \<Rightarrow> ustr" where
  "py_rstrip_chars chars s = rev (dropWhile (\<lambda>c. c \<in> set chars) (rev s))"

text \<open>\<^verbatim>\<open>s.startswith(p)\<close> and the substring test \<^verbatim>\<open>sub in s\<close>.\<close>

fun startswith :: "ustr \<Rightarrow> ustr \<Rightarrow> bool" where
  "startswith s [] = True"
| "startswith [] (p # ps) = False"
| "startswith (c # cs) (p # ps) = (c = p \<and> startswith cs ps)"

fun py_in :: "ustr \<Rightarrow> ustr \<Rightarrow> bool" where
  "py_in sub [] = (sub = [])"
| "py_in sub (c # cs) = (startswith (c # cs) sub \<or> py_in sub cs)"

text \<open>
  \<^verbatim>\<open>s.replace(old, '')\<close> for a non-empty \<open>old\<close> (the source only ever passes non-empty
  literals): occurrences are removed from left to right, without overlap, in one pass.
\<close>

fun py_remove :: "ustr \<Rightarrow> ustr \<Rightarrow> ustr" where
  "py_remove old [] = []"
| "py_remove old (c # cs) =
     (if old \<noteq> [] \<and> startswith (c # cs) old
      then py_remove old (drop (length old - 1) cs)
      else c # py_remove old cs)"

text \<open>\<^verbatim>\<open>s.split(sep)[0]\<close> for a one-character separator: the text before its first occurrence.\<close>

definition split_head :: "int \<Rightarrow> ustr \<Rightarrow> ustr" where
  "split_head sep s = takeWhile (\<lambda>c. c \<noteq> sep) s"

text \<open>\<^verbatim>\<open>str(n)\<close> for an integer: its decimal digits, with a minus sign when negative.\<close>

fun nat_digits :: "nat \<Rightarrow> ustr" where
  "nat_digits n = (if n < 10 then [0x30 + int n] else nat_digits (n div 10) @ [0x30 + int (n mod 10)])"

declare nat_digits.simps [simp del]

definition str_of_int :: "int \<Rightarrow> ustr" where
  "str_of_int i = (if i < 0 then 0x2D # nat_digits (nat (- i)) else nat_digits (nat i))"

section \<open>Python values and dictionaries\<close>

text \<open>
  The values an admission dictionary holds: \<^verbatim>\<open>None\<close>, a string or an integer. A
  dictionary with string keys is a map; \<^verbatim>\<open>d.get(k)\<close> is the lookup, \<^verbatim>\<open>None\<close> when
  the key is absent.
\<close>

datatype pyval = PyNone | PyStr ustr | PyInt int

datatype py_error = AttributeError | NameError | HTTPError nat | RequestException | JSONDecodeError

type_synonym pydict = "ustr \<rightharpoonup> pyval"

fun truthy :: "pyval \<Rightarrow> bool" where
  "truthy PyNone = False"
| "truthy (PyStr s) = (s \<noteq> [])"
| "truthy (PyInt n) = (n \<noteq> 0)"

definition dict_get :: "pydict \<Rightarrow> ustr \<Rightarrow> pyval" where
  "dict_get d k = (case d k of None \<Rightarrow> PyNone | Some v \<Rightarrow> v)"

fun py_str :: "pyval \<Rightarrow> ustr" where
  "py_str PyNone = u ''None''"
| "py_str (PyStr s) = s"
| "py_str (PyInt n) = str_of_int n"

section \<open>The data cleaner (cleaner.py)\<close>

text \<open>
  Dictionary keys of an admission record: \<open>k_year\<close> is U+5E74 U+4EFD (nianfen, year),
  \<open>k_school\<close> U+5B66 U+6821 (xuexiao, school), \<open>k_province\<close> U+751F U+6E90 U+5730
  (shengyuandi, source province), \<open>k_min_score\<close> U+6700 U+4F4E U+5206 (zuidifen, lowest
  score), \<open>k_min_rank\<close> U+6700 U+4F4E U+5206 U+6392 U+540D (zuidifen paiming, rank of the
  lowest score), \<open>k_985\<close> and \<open>k_211\<close> the ASCII keys, \<open>k_dfc\<close> U+53CC U+4E00 U+6D41
  (shuangyiliu, double first class).
\<close>

definition k_year :: ustr where "k_year = [0x5E74, 0x4EFD]"
definition k_school :: ustr where "k_school = [0x5B66, 0x6821]"
definition k_province :: ustr where "k_province = [0x751F, 0x6E90, 0x5730]"
definition k_min_score :: ustr where "k_min_score = [0x6700, 0x4F4E, 0x5206]"
definition k_min_rank :: ustr where "k_min_rank = [0x6700, 0x4F4E, 0x5206, 0x6392, 0x540D]"
definition k_985 :: ustr where "k_985 = u ''_985''"
definition k_211 :: ustr where "k_211 = u ''_211''"
definition k_dfc :: ustr where "k_dfc = [0x53CC, 0x4E00, 0x6D41]"

text \<open>
  \<^verbatim>\<open>UNIVERSITY_TAGS\<close>: the ten schools of the table, each with all three tags set. In
  order: Peking, Tsinghua, Fudan, Shanghai Jiao Tong, Zhejiang, Nanjing, Beijing Institute
  of Technology, Beihang, Huazhong University of Science and Technology, Nankai.
\<close>

definition UNIVERSITY_TAGS :: "(ustr \<times> bool \<times> bool \<times> bool) list" where
  "UNIVERSITY_TAGS =
    [([0x5317, 0x4EAC, 0x5927, 0x5B66], True, True, True),
     ([0x6E05, 0x534E, 0x5927, 0x5B66], True, True, True),
     ([0x590D, 0x65E6, 0x5927, 0x5B66], True, True, True),
     ([0x4E0A, 0x6D77, 0x4EA4, 0x901A, 0x5927, 0x5B66], True, True, True),
     ([0x6D59, 0x6C5F, 0x5927, 0x5B66], True, True, True),
     ([0x5357, 0x4EAC, 0x5927, 0x5B66], True, True, True),
     ([0x5317, 0x4EAC, 0x7406, 0x5DE5, 0x5927, 0x5B66], True, True, True),
     ([0x5317, 0x4EAC, 0x822A, 0x7A7A, 0x822A, 0x5929, 0x5927, 0x5B66], True, True, True),
     ([0x534E, 0x4E2D, 0x79D1, 0x6280, 0x5927, 0x5B66], True, True, True),
     ([0x5357, 0x5F00, 0x5927, 0x5B66], True, True, True)]"

definition flag :: "bool \<Rightarrow> pyval" where
  "flag b = PyStr (if b then u ''1'' else u ''0'')"

definition add_university_tags :: "pydict \<Rightarrow> pydict" where
  "add_university_tags admission_info =
     (let tags = (case admission_info k_school of
                    Some (PyStr school_name) \<Rightarrow> map_of UNIVERSITY_TAGS school_name
                  | _ \<Rightarrow> None);
          t = (case tags of None \<Rightarrow> (False, False, False) | Some x \<Rightarrow> x)
      in admission_info(k_985 \<mapsto> flag (fst t), k_211 \<mapsto> flag (fst (snd t)),
                        k_dfc \<mapsto> flag (snd (snd t))))"

text \<open>
  \<^verbatim>\<open>clean_score\<close>: a falsy argument gives the empty string; otherwise the digit characters
  of \<^verbatim>\<open>str(score_str)\<close> when there are any, else \<^verbatim>\<open>score_str.strip()\<close>, which only a
  string has.
\<close>

definition clean_score :: "pyval \<Rightarrow> py_error + pyval" where
  "clean_score score_str =
     (if \<not> truthy score_str then Inr (PyStr [])
      else let cleaned = filter isdigit_chr (py_str score_str)
           in if cleaned \<noteq> [] then Inr (PyStr cleaned)
              else (case score_str of
                      PyStr s \<Rightarrow> Inr (PyStr (py_strip s))
                    | _ \<Rightarrow> Inl AttributeError))"

definition clean_ranking :: "pyval \<Rightarrow> py_error + pyval" where
  "clean_ranking ranking_str =
     (if \<not> truthy ranking_str then Inr (PyStr [])
      else let cleaned = filter isdigit_chr (py_str ranking_str)
           in if cleaned \<noteq> [] then Inr (PyStr cleaned)
              else (case ranking_str of
                      PyStr s \<Rightarrow> Inr (PyStr (py_strip s))
                    | _ \<Rightarrow> Inl AttributeError))"

text \<open>
  \<^verbatim>\<open>validate_data\<close> returns its verdict; the warnings it sends to the logger are returned
  beside it. The loop over the required fields returns at the first one whose value is
  absent or falsy.
\<close>

datatype warning = MissingField ustr | BadYearFormat ustr

definition required_fields :: "ustr list" where
  "required_fields = [k_year, k_school, k_province]"

definition validate_data :: "pydict \<Rightarrow> bool \<times> warning list" where
  "validate_data admission_info =
     (case find (\<lambda>field. \<not> truthy (dict_get admission_info field)) required_fields of
        Some field \<Rightarrow> (False, [MissingField field])
      | None \<Rightarrow>
          (case dict_get admission_info k_year of
             PyStr year \<Rightarrow>
               if \<not> py_isdigit year \<or> length year \<noteq> 4
               then (False, [BadYearFormat year])
               else (True, [])
           | _ \<Rightarrow> (True, [])))"

text \<open>
  \<^verbatim>\<open>clean_data\<close>: a record that fails validation is skipped; the others have their score
  and rank cleaned (when the key is present) and the tags added. An exception of
  \<^verbatim>\<open>clean_score\<close> is not caught here and ends the loop.
\<close>

definition clean_record :: "pydict \<Rightarrow> py_error + pydict" where
  "clean_record d =
     (case (case d k_min_score of
              None \<Rightarrow> Inr d
            | Some v \<Rightarrow> (case clean_score v of Inl e \<Rightarrow> Inl e
                          | Inr v' \<Rightarrow> Inr (d(k_min_score \<mapsto> v')))) of
        Inl e \<Rightarrow> Inl e
      | Inr d1 \<Rightarrow>
          (case (case d1 k_min_rank of
                   None \<Rightarrow> Inr d1
                 | Some v \<Rightarrow> (case clean_ranking v of Inl e \<Rightarrow> Inl e
                               | Inr v' \<Rightarrow> Inr (d1(k_min_rank \<mapsto> v')))) of
             Inl e \<Rightarrow> Inl e
           | Inr d2 \<Rightarrow> Inr (add_university_tags d2)))"

fun clean_data_loop ::
  "pydict list \<Rightarrow> pydict list \<Rightarrow> warning list \<Rightarrow> (py_error + pydict list) \<times> warning list" where
  "clean_data_loop [] cleaned_list ws = (Inr cleaned_list, ws)"
| "clean_data_loop (d # ds) cleaned_list ws =
     (case validate_data d of
        (False, w) \<Rightarrow> clean_data_loop ds cleaned_list (ws @ w)
      | (True, w) \<Rightarrow>
          (case clean_record d of
             Inl e \<Rightarrow> (Inl e, ws @ w)
           | Inr d' \<Rightarrow> clean_data_loop ds (cleaned_list @ [d']) (ws @ w)))"

definition clean_data :: "pydict list \<Rightarrow> (py_error + pydict list) \<times> warning list" where
  "clean_data admission_list = clean_data_loop admission_list [] []"

text \<open>
  A sample record with a given year value: school U+6E05 U+534E U+5927 U+5B66 (Tsinghua
  University), source province U+5317 U+4EAC (Beijing).
\<close>

definition rec_of_year :: "pyval \<Rightarrow> pydict" where
  "rec_of_year y = [k_year \<mapsto> y, k_school \<mapsto> PyStr [0x6E05, 0x534E, 0x5927, 0x5B66],
                    k_province \<mapsto> PyStr [0x5317, 0x4EAC]]"

section \<open>The loader (import\_data.py)\<close>

text \<open>\<^verbatim>\<open>s.split()\<close> (split at runs of whitespace) and \<^verbatim>\<open>sep.join(words)\<close>.\<close>

fun split_ws :: "ustr \<Rightarrow> ustr \<Rightarrow> ustr list" where
  "split_ws w [] = (if w = [] then [] else [w])"
| "split_ws w (c # cs) =
     (if isspace_chr c then (if w = [] then split_ws [] cs else w # split_ws [] cs)
      else split_ws (w @ [c]) cs)"

definition py_split :: "ustr \<Rightarrow> ustr list" where
  "py_split s = split_ws [] s"

fun py_join :: "ustr \<Rightarrow> ustr list \<Rightarrow> ustr" where
  "py_join sep [] = []"
| "py_join sep [w] = w"
| "py_join sep (w # ws) = w @ sep @ py_join sep ws"

text \<open>
  The translation table of \<^verbatim>\<open>sanitize_text\<close>: the full-width parentheses U+FF08 and
  U+FF09 become the ASCII ones, the ideographic space U+3000 an ASCII space.
\<close>

definition translate_chr :: "int \<Rightarrow> int" where
  "translate_chr c =
     (if c = 0xFF08 then 0x28 else if c = 0xFF09 then 0x29 else if c = 0x3000 then 0x20 else c)"

text \<open>
  \<^verbatim>\<open>sanitize_text(value, max_len)\<close>; a value for which \<^verbatim>\<open>pd.isna\<close> holds is \<open>None\<close>,
  any other is the string it holds.
\<close>

definition sanitize_text :: "ustr option \<Rightarrow> nat option \<Rightarrow> ustr option" where
  "sanitize_text val max_len =
     (case val of
        None \<Rightarrow> None
      | Some v \<Rightarrow>
          (let s = py_strip v in
           if s = [] then None
           else let s1 = py_join [0x20] (py_split s);
                    s2 = map translate_chr s1
                in (case max_len of
                      None \<Rightarrow> Some s2
                    | Some m \<Rightarrow> if length s2 > m then Some (take m s2) else Some s2)))"

text \<open>\<^verbatim>\<open>s.rfind(c)\<close> for a character: the last index of \<open>c\<close>, \<open>None\<close> for Python's -1.\<close>

fun py_rfind :: "int \<Rightarrow> ustr \<Rightarrow> nat option" where
  "py_rfind c [] = None"
| "py_rfind c (x # xs) =
     (case py_rfind c xs of
        Some i \<Rightarrow> Some (Suc i)
      | None \<Rightarrow> if x = c then Some 0 else None)"

definition MAX_LEN_MAJOR_NAME :: nat where
  "MAX_LEN_MAJOR_NAME = 224"

text \<open>
  \<^verbatim>\<open>smart_shorten_major_name\<close>. U+3001 is the ideographic comma (the list separator),
  the characters stripped from the right of the cut are U+3001, U+FF0C, the ASCII comma,
  U+FF1B, the ASCII semicolon and the space; the closing marker is U+7B49 U+FF09 (deng,
  "etc.", and the full-width closing parenthesis). The parentheses counted are the
  full-width U+FF08 and U+FF09, as in the source.
\<close>

definition smart_shorten_major_name :: "ustr option \<Rightarrow> nat \<Rightarrow> ustr option" where
  "smart_shorten_major_name val max_len =
     (case sanitize_text val None of
        None \<Rightarrow> None
      | Some s \<Rightarrow>
          if length s \<le> max_len then Some s
          else
            (let truncated = take max_len s in
             case py_rfind 0x3001 truncated of
               Some cut_pos \<Rightarrow>
                 (let base = py_rstrip_chars [0x3001, 0xFF0C, 0x2C, 0xFF1B, 0x3B, 0x20]
                               (take cut_pos truncated);
                      candidate = base
                  in if count_list candidate 0xFF08 > count_list candidate 0xFF09
                     then (let c1 = candidate @ [0x7B49, 0xFF09];
                               c2 = (if length c1 > max_len then take max_len c1 else c1);
                               c3 = (if count_list c2 0xFF08 > count_list c2 0xFF09
                                     then c2 @ [0xFF09] else c2)
                           in Some c3)
                     else Some candidate)
             | None \<Rightarrow>
                 (let candidate = py_rstrip truncated
                  in if count_list candidate 0xFF08 > count_list candidate 0xFF09
                     then (let c1 = candidate @ [0xFF09];
                               c2 = (if length c1 > max_len then take max_len c1 else c1)
                           in Some c2)
                     else Some candidate)))"

text \<open>
  A major name that opens a full-width parenthesis and then lists 150 items separated by
  U+3001: U+FF08, then 150 times U+7532 U+3001 (301 characters).
\<close>

definition long_major :: ustr where
  "long_major = 0xFF08 # concat (replicate 150 [0x7532, 0x3001])"

text \<open>
  Numbers. A finite float is the rational it denotes. \<^verbatim>\<open>int(x)\<close> truncates towards
  zero; \<^verbatim>\<open>round(x)\<close> rounds to the nearest integer, a tie to the even one.
\<close>

definition py_int_of_float :: "rat \<Rightarrow> int" where
  "py_int_of_float x = (if 0 \<le> x then \<lfloor>x\<rfloor> else \<lceil>x\<rceil>)"


text \<open>
  A cell of a column read from a CSV file: missing (\<^verbatim>\<open>pd.isna\<close>), a float, or text.
  \<^verbatim>\<open>to_int_safe\<close> turns the cell into a string and parses that with \<^verbatim>\<open>float\<close>: for a
  float cell this gives the cell's value back (\<^verbatim>\<open>float(str(x)) == x\<close>); for text the
  parser is the parameter \<open>py_float\<close>, \<open>None\<close> where \<^verbatim>\<open>float(s)\<close> raises or gives a
  value \<^verbatim>\<open>round\<close> raises on.
\<close>

datatype cell = Missing | Number rat | Text ustr


text \<open>
  The rows of an admission file after the columns \<^verbatim>\<open>ADMISSION_YEAR\<close>, \<^verbatim>\<open>MIN_SCORE\<close>,
  \<^verbatim>\<open>MIN_RANK\<close>, \<^verbatim>\<open>TYPE\<close>, \<^verbatim>\<open>MAJOR_NAME\<close> and \<^verbatim>\<open>PROVINCE\<close> have been computed.
  \<open>None\<close> is the missing value of a numeric column; \<open>TYPE_col\<close> is the column
  \<^verbatim>\<open>TYPE\<close>.
\<close>

record score_row =
  COLLEGE_CODE :: int
  TYPE_col :: ustr
  MAJOR_NAME :: ustr
  PROVINCE :: ustr
  ADMISSION_YEAR :: "int option"
  MIN_SCORE :: "int option"
  MIN_RANK :: "int option"

text \<open>\<^verbatim>\<open>df.dropna(subset=["ADMISSION_YEAR", "MIN_SCORE"])\<close>.\<close>

definition dropna :: "score_row list \<Rightarrow> score_row list" where
  "dropna df = filter (\<lambda>r. ADMISSION_YEAR r \<noteq> None \<and> MIN_SCORE r \<noteq> None) df"

text \<open>
  \<^verbatim>\<open>df.drop_duplicates(subset=cols)\<close> of pandas keeps, in order, the first row of each
  value of the key columns (missing values count as equal to each other).
\<close>

fun drop_duplicates_from :: "'k list \<Rightarrow> ('r \<Rightarrow> 'k) \<Rightarrow> 'r list \<Rightarrow> 'r list" where
  "drop_duplicates_from seen key [] = []"
| "drop_duplicates_from seen key (r # rs) =
     (if key r \<in> set seen then drop_duplicates_from seen key rs
      else r # drop_duplicates_from (key r # seen) key rs)"

definition drop_duplicates :: "('r \<Rightarrow> 'k) \<Rightarrow> 'r list \<Rightarrow> 'r list" where
  "drop_duplicates key df = drop_duplicates_from [] key df"

definition dedup_cols ::
  "score_row \<Rightarrow> int \<times> ustr \<times> int option \<times> ustr \<times> int option \<times> int option" where
  "dedup_cols r =
     (COLLEGE_CODE r, PROVINCE r, ADMISSION_YEAR r, MAJOR_NAME r, MIN_SCORE r, MIN_RANK r)"

definition loader_dedup :: "score_row list \<Rightarrow> score_row list" where
  "loader_dedup df = drop_duplicates dedup_cols (dropna df)"

section \<open>The Nankai adapter (nankai\_crawler.py)\<close>

text \<open>
  The values of a decoded JSON object: \<^verbatim>\<open>None\<close>, a string, an integer or a (finite)
  float, the last as the rational it denotes. An item of the API's lists is a dictionary
  of such values.
\<close>

datatype jval = JNull | JStr ustr | JInt int | JFloat rat

type_synonym jdict = "ustr \<rightharpoonup> jval"

fun j_truthy :: "jval \<Rightarrow> bool" where
  "j_truthy JNull = False"
| "j_truthy (JStr s) = (s \<noteq> [])"
| "j_truthy (JInt n) = (n \<noteq> 0)"
| "j_truthy (JFloat x) = (x \<noteq> 0)"

text \<open>\<^verbatim>\<open>item.get(k)\<close> and \<^verbatim>\<open>item.get(k, default)\<close>.\<close>

definition j_get :: "jdict \<Rightarrow> ustr \<Rightarrow> jval" where
  "j_get item k = (case item k of None \<Rightarrow> JNull | Some v \<Rightarrow> v)"

definition j_get_default :: "jdict \<Rightarrow> ustr \<Rightarrow> jval \<Rightarrow> jval" where
  "j_get_default item k dflt = (case item k of None \<Rightarrow> dflt | Some v \<Rightarrow> v)"

text \<open>
  \<^verbatim>\<open>str(v)\<close>; the text of a float is left to the parameter \<open>str_float\<close>.
\<close>

fun j_str :: "(rat \<Rightarrow> ustr) \<Rightarrow> jval \<Rightarrow> ustr" where
  "j_str str_float JNull = u ''None''"
| "j_str str_float (JStr s) = s"
| "j_str str_float (JInt n) = str_of_int n"
| "j_str str_float (JFloat x) = str_float x"

text \<open>
  The coercion applied to \<^verbatim>\<open>minScore\<close> and to the rank: a number becomes
  \<^verbatim>\<open>str(int(v))\<close>, any other truthy value \<^verbatim>\<open>str(v)\<close>, a falsy one "NA".
\<close>

fun number_text :: "jval \<Rightarrow> ustr" where
  "number_text (JInt n) = str_of_int n"
| "number_text (JFloat x) = str_of_int (py_int_of_float x)"
| "number_text (JStr s) = (if s \<noteq> [] then s else u ''NA'')"
| "number_text JNull = u ''NA''"

text \<open>The local helper \<^verbatim>\<open>get_value_or_na(value, default)\<close>.\<close>

definition get_value_or_na :: "jval \<Rightarrow> ustr \<Rightarrow> jval" where
  "get_value_or_na val dflt =
     (let result = (if val \<noteq> JNull then val else JStr dflt)
      in if j_truthy result then result else JStr (u ''NA''))"

text \<open>
  The record \<^verbatim>\<open>parse_batch_data\<close> builds for an item. The school name is U+5357 U+5F00
  U+5927 U+5B66 (Nankai University), the batch U+666E U+901A U+6279 (putong pi, general
  batch), the default admission type U+666E U+901A U+7C7B (putong lei, general).
\<close>

record nk_info =
  nk_year :: ustr
  nk_school :: ustr
  nk_985 :: ustr
  nk_211 :: ustr
  nk_dfc :: ustr
  nk_category :: jval
  nk_batch :: ustr
  nk_major :: jval
  nk_min_score :: ustr
  nk_min_rank :: ustr
  nk_code :: ustr
  nk_type :: jval
  nk_province :: jval

definition nankai_batch_item :: "(rat \<Rightarrow> ustr) \<Rightarrow> int \<Rightarrow> ustr \<Rightarrow> jdict \<Rightarrow> nk_info" where
  "nankai_batch_item str_float year province item =
     (let min_score = j_get_default item (u ''minScore'') (JStr []);
          min_rank = (if j_truthy (j_get item (u ''minRank'')) then j_get item (u ''minRank'')
                      else j_get_default item (u ''minOrder'') (JStr []));
          nf = j_get_default item (u ''nf'') (JInt year)
      in \<lparr> nk_year = (if j_truthy nf then j_str str_float nf else str_of_int year),
           nk_school = [0x5357, 0x5F00, 0x5927, 0x5B66],
           nk_985 = u ''1'', nk_211 = u ''1'', nk_dfc = u ''1'',
           nk_category = get_value_or_na (j_get item (u ''klmc'')) [],
           nk_batch = [0x666E, 0x901A, 0x6279],
           nk_major = JStr (u ''NA''),
           nk_min_score = number_text min_score,
           nk_min_rank = number_text min_rank,
           nk_code = u ''10055'',
           nk_type = get_value_or_na (j_get item (u ''zslx'')) [0x666E, 0x901A, 0x7C7B],
           nk_province = get_value_or_na (j_get_default item (u ''ssmc'') (JStr province)) [] \<rparr>)"

definition parse_batch_data ::
  "(rat \<Rightarrow> ustr) \<Rightarrow> jdict list \<Rightarrow> int \<Rightarrow> ustr \<Rightarrow> nk_info list" where
  "parse_batch_data str_float batch_list year province =
     map (nankai_batch_item str_float year province) batch_list"

text \<open>
  The record \<^verbatim>\<open>parse_major_data\<close> builds for an item of the list of majors: the major is
  the item's \<^verbatim>\<open>zymc\<close>, the rank is always "NA".
\<close>

definition nankai_major_item :: "(rat \<Rightarrow> ustr) \<Rightarrow> int \<Rightarrow> ustr \<Rightarrow> jdict \<Rightarrow> nk_info" where
  "nankai_major_item str_float year province item =
     (let min_score = j_get_default item (u ''minScore'') (JStr []);
          nf = j_get_default item (u ''nf'') (JInt year)
      in \<lparr> nk_year = (if j_truthy nf then j_str str_float nf else str_of_int year),
           nk_school = [0x5357, 0x5F00, 0x5927, 0x5B66],
           nk_985 = u ''1'', nk_211 = u ''1'', nk_dfc = u ''1'',
           nk_category = get_value_or_na (j_get item (u ''klmc'')) [],
           nk_batch = [0x666E, 0x901A, 0x6279],
           nk_major = get_value_or_na (j_get item (u ''zymc'')) [],
           nk_min_score = number_text min_score,
           nk_min_rank = u ''NA'',
           nk_code = u ''10055'',
           nk_type = get_value_or_na (j_get item (u ''zslx'')) [0x666E, 0x901A, 0x7C7B],
           nk_province = get_value_or_na (j_get_default item (u ''ssmc'') (JStr province)) [] \<rparr>)"

definition parse_major_data ::
  "(rat \<Rightarrow> ustr) \<Rightarrow> jdict list \<Rightarrow> int \<Rightarrow> ustr \<Rightarrow> nk_info list" where
  "parse_major_data str_float major_list year province =
     map (nankai_major_item str_float year province) major_list"

text \<open>
  The HTTP session. A reply carries its status code, the two token headers
  (\<^verbatim>\<open>Csrf-Token\<close>, \<^verbatim>\<open>X-Csrf-Token\<close>) and its body, \<open>None\<close> when the body is not a
  JSON object. The server is the list of outcomes it will give to the POST requests to
  come; each request sent is recorded with the \<^verbatim>\<open>Csrf-Token\<close> header it carried.
\<close>

record 'p json_body =
  js_state :: "jval option"
  js_data :: "'p option"

record 'p response =
  status_code :: nat
  csrf_header :: "ustr option"
  x_csrf_header :: "ustr option"
  json :: "'p json_body option"

datatype 'p outcome = ConnectionFailure | Reply "'p response"

datatype 'p fetched = EmptyDict | Payload 'p

record 'p nankai =
  csrf_token :: "ustr option"
  pending :: "'p outcome list"
  sent :: "ustr option list"

definition tok_truthy :: "ustr option \<Rightarrow> bool" where
  "tok_truthy t = (case t of None \<Rightarrow> False | Some s \<Rightarrow> s \<noteq> [])"

text \<open>\<^verbatim>\<open>response.headers.get('Csrf-Token') or response.headers.get('X-Csrf-Token')\<close>.\<close>

definition header_token :: "'p response \<Rightarrow> ustr option" where
  "header_token r = (if tok_truthy (csrf_header r) then csrf_header r else x_csrf_header r)"

definition session_post :: "ustr option \<Rightarrow> 'p nankai \<Rightarrow> (py_error + 'p response) \<times> 'p nankai" where
  "session_post tok st =
     (case pending st of
        [] \<Rightarrow> (Inl RequestException, st\<lparr>sent := sent st @ [tok]\<rparr>)
      | ConnectionFailure # rest \<Rightarrow>
          (Inl RequestException, st\<lparr>pending := rest, sent := sent st @ [tok]\<rparr>)
      | Reply r # rest \<Rightarrow> (Inr r, st\<lparr>pending := rest, sent := sent st @ [tok]\<rparr>))"

definition is_one :: "jval \<Rightarrow> bool" where
  "is_one v = (case v of JInt n \<Rightarrow> n = 1 | JFloat x \<Rightarrow> x = 1 | _ \<Rightarrow> False)"

text \<open>
  The end of both request functions: \<^verbatim>\<open>raise_for_status\<close> (an error status raises),
  the decoding of the body, and the test \<^verbatim>\<open>data.get('state') == 1\<close>.
\<close>

definition finish_request :: "'p response \<Rightarrow> py_error + 'p fetched option" where
  "finish_request response =
     (if 400 \<le> status_code response \<and> status_code response < 600
      then Inl (HTTPError (status_code response))
      else (case json response of
              None \<Rightarrow> Inl JSONDecodeError
            | Some data \<Rightarrow>
                if (case js_state data of None \<Rightarrow> False | Some v \<Rightarrow> is_one v)
                then Inr (Some (case js_data data of None \<Rightarrow> EmptyDict | Some p \<Rightarrow> Payload p))
                else Inr None))"

text \<open>
  The body of the \<^verbatim>\<open>try\<close> of \<^verbatim>\<open>get_admission_data\<close>. The token is taken from every
  reply that carries one; a 403 reply that carries one is answered by one more POST.
\<close>

definition get_admission_data_try ::
  "'p nankai \<Rightarrow> (py_error + 'p fetched option) \<times> 'p nankai" where
  "get_admission_data_try st =
     (case session_post (if tok_truthy (csrf_token st) then csrf_token st else None) st of
        (Inl e, st1) \<Rightarrow> (Inl e, st1)
      | (Inr response, st1) \<Rightarrow>
          (let new_token = header_token response;
               st2 = (if tok_truthy new_token then st1\<lparr>csrf_token := new_token\<rparr> else st1)
           in if status_code response = 403 \<and> tok_truthy new_token
              then (case session_post new_token (st2\<lparr>csrf_token := new_token\<rparr>) of
                      (Inl e, st3) \<Rightarrow> (Inl e, st3)
                    | (Inr response2, st3) \<Rightarrow> (finish_request response2, st3))
              else (finish_request response, st2)))"

text \<open>Both \<^verbatim>\<open>except\<close> clauses log the error and return \<^verbatim>\<open>None\<close>.\<close>

definition get_admission_data :: "'p nankai \<Rightarrow> 'p fetched option \<times> 'p nankai" where
  "get_admission_data st =
     (case get_admission_data_try st of
        (Inl e, st') \<Rightarrow> (None, st')
      | (Inr r, st') \<Rightarrow> (r, st'))"

text \<open>
  The body of the \<^verbatim>\<open>try\<close> of \<^verbatim>\<open>get_filter_params\<close>. The token is taken from the reply
  only when none is held. In the 403 branch the statements before the retry assign to
  \<^verbatim>\<open>post_data\<close>, a name bound nowhere in the function or the module: the first of them
  raises \<^verbatim>\<open>NameError\<close>, after the token has been stored.
\<close>

definition get_filter_params_try ::
  "'p nankai \<Rightarrow> (py_error + 'p fetched option) \<times> 'p nankai" where
  "get_filter_params_try st =
     (case session_post (if tok_truthy (csrf_token st) then csrf_token st else None) st of
        (Inl e, st1) \<Rightarrow> (Inl e, st1)
      | (Inr response, st1) \<Rightarrow>
          (let st2 = (if \<not> tok_truthy (csrf_token st1) \<and> tok_truthy (header_token response)
                      then st1\<lparr>csrf_token := header_token response\<rparr> else st1)
           in if status_code response = 403 \<and> tok_truthy (header_token response)
              then (Inl NameError, st2\<lparr>csrf_token := header_token response\<rparr>)
              else (finish_request response, st2)))"

definition get_filter_params :: "'p nankai \<Rightarrow> 'p fetched option \<times> 'p nankai" where
  "get_filter_params st =
     (case get_filter_params_try st of
        (Inl e, st') \<Rightarrow> (None, st')
      | (Inr r, st') \<Rightarrow> (r, st'))"

text \<open>
  A server that refuses the first request with status 403 and a fresh token ("fresh")
  and would accept the second; the adapter holds the token "stale".
\<close>

definition refused :: "ustr response" where
  "refused = \<lparr> status_code = 403, csrf_header = Some (u ''fresh''), x_csrf_header = None,
               json = None \<rparr>"

definition accepted :: "ustr response" where
  "accepted = \<lparr> status_code = 200, csrf_header = None, x_csrf_header = None,
                json = Some \<lparr> js_state = Some (JInt 1), js_data = Some (u ''scores'') \<rparr> \<rparr>"

definition expired :: "ustr nankai" where
  "expired = \<lparr> csrf_token = Some (u ''stale''), pending = [Reply refused, Reply accepted],
               sent = [] \<rparr>"

definition expired_twice :: "ustr nankai" where
  "expired_twice = \<lparr> csrf_token = Some (u ''stale''), pending = [Reply refused, Reply refused],
                     sent = [] \<rparr>"

section \<open>The BIT adapter (bit\_crawler.py)\<close>

text \<open>
  The BIT adapter reads the same kind of API as the Nankai adapter. Its
  \<^verbatim>\<open>parse_batch_data\<close> and \<^verbatim>\<open>parse_major_data\<close> build a dictionary of ten keys (the
  three flags of the other adapters are not among them); the local helper
  \<^verbatim>\<open>get_value_or_na\<close> and the coercion of \<^verbatim>\<open>minScore\<close> and of the rank are, statement
  by statement, those of the Nankai adapter. A falsy \<^verbatim>\<open>nf\<close> gives the year "NA". The
  school name is U+5317 U+4EAC U+7406 U+5DE5 U+5927 U+5B66 (Beijing Institute of
  Technology), the batch U+666E U+901A U+6279, the default admission type U+666E U+901A
  U+7C7B.
\<close>

record bit_info =
  bit_year :: ustr
  bit_school :: ustr
  bit_category :: jval
  bit_batch :: ustr
  bit_major :: jval
  bit_min_score :: ustr
  bit_min_rank :: ustr
  bit_code :: ustr
  bit_type :: jval
  bit_province :: jval

definition bit_batch_item :: "(rat \<Rightarrow> ustr) \<Rightarrow> int \<Rightarrow> ustr \<Rightarrow> jdict \<Rightarrow> bit_info" where
  "bit_batch_item str_float year province item =
     (let min_score = j_get_default item (u ''minScore'') (JStr []);
          min_rank = (if j_truthy (j_get item (u ''minRank'')) then j_get item (u ''minRank'')
                      else j_get_default item (u ''minOrder'') (JStr []));
          nf = j_get_default item (u ''nf'') (JInt year)
      in \<lparr> bit_year = (if j_truthy nf then j_str str_float nf else u ''NA''),
           bit_school = [0x5317, 0x4EAC, 0x7406, 0x5DE5, 0x5927, 0x5B66],
           bit_category = get_value_or_na (j_get item (u ''klmc'')) [],
           bit_batch = [0x666E, 0x901A, 0x6279],
           bit_major = JStr (u ''NA''),
           bit_min_score = number_text min_score,
           bit_min_rank = number_text min_rank,
           bit_code = u ''10007'',
           bit_type = get_value_or_na (j_get item (u ''zslx'')) [0x666E, 0x901A, 0x7C7B],
           bit_province = get_value_or_na (j_get_default item (u ''ssmc'') (JStr province)) [] \<rparr>)"

definition bit_parse_batch_data ::
  "(rat \<Rightarrow> ustr) \<Rightarrow> jdict list \<Rightarrow> int \<Rightarrow> ustr \<Rightarrow> bit_info list" where
  "bit_parse_batch_data str_float batch_list year province =
     map (bit_batch_item str_float year province) batch_list"

definition bit_major_item :: "(rat \<Rightarrow> ustr) \<Rightarrow> int \<Rightarrow> ustr \<Rightarrow> jdict \<Rightarrow> bit_info" where
  "bit_major_item str_float year province item =
     (let min_score = j_get_default item (u ''minScore'') (JStr []);
          nf = j_get_default item (u ''nf'') (JInt year)
      in \<lparr> bit_year = (if j_truthy nf then j_str str_float nf else u ''NA''),
           bit_school = [0x5317, 0x4EAC, 0x7406, 0x5DE5, 0x5927, 0x5B66],
           bit_category = get_value_or_na (j_get item (u ''klmc'')) [],
           bit_batch = [0x666E, 0x901A, 0x6279],
           bit_major = get_value_or_na (j_get item (u ''zymc'')) [],
           bit_min_score = number_text min_score,
           bit_min_rank = u ''NA'',
           bit_code = u ''10007'',
           bit_type = get_value_or_na (j_get item (u ''zslx'')) [0x666E, 0x901A, 0x7C7B],
           bit_province = get_value_or_na (j_get_default item (u ''ssmc'') (JStr province)) [] \<rparr>)"

definition bit_parse_major_data ::
  "(rat \<Rightarrow> ustr) \<Rightarrow> jdict list \<Rightarrow> int \<Rightarrow> ustr \<Rightarrow> bit_info list" where
  "bit_parse_major_data str_float major_list year province =
     map (bit_major_item str_float year province) major_list"

section \<open>Regular expressions (the part of Python's re the adapters use)\<close>

text \<open>
  A character class is a list of atoms: a character, \<^verbatim>\<open>\d\<close> or \<^verbatim>\<open>\s\<close>. The
  constructors of \<open>regex\<close> are the operators of the patterns in the source: a class
  \<^verbatim>\<open>[...]\<close>, a negated class \<^verbatim>\<open>[^...]\<close>, the empty pattern, concatenation,
  alternation \<^verbatim>\<open>a|b\<close>, the greedy \<^verbatim>\<open>?\<close>, \<^verbatim>\<open>*\<close> and \<^verbatim>\<open>+\<close>, the lazy
  \<^verbatim>\<open>+?\<close>, a numbered capturing group, the lookahead \<^verbatim>\<open>(?=...)\<close> and \<^verbatim>\<open>$\<close>.
\<close>

datatype atom = AChr int | ADigit | ASpace

fun atom_ok :: "atom \<Rightarrow> int \<Rightarrow> bool" where
  "atom_ok (AChr a) c = (c = a)"
| "atom_ok ADigit c = isdecimal_chr c"
| "atom_ok ASpace c = isspace_chr c"

datatype regex =
    OneOf "atom list"
  | NoneOf "atom list"
  | Eps
  | Seq regex regex
  | Alt regex regex
  | Opt regex
  | Star regex
  | Plus regex
  | PlusLazy regex
  | Group nat regex
  | Ahead regex
  | Eos

text \<open>
  A matching state is the text still to be read and the groups captured so far (the
  latest binding of a group first). \<open>matches r s\<close> lists the states in which a match of
  \<open>r\<close> started in \<open>s\<close> can end, in the order in which the backtracking matcher of
  \<^verbatim>\<open>re\<close> tries them: the head of the list is the match it returns. A repetition tries
  its body again only from a state that has read something; this bounds the number of
  rounds by the length of the text, which is the bound passed to the two loops.
\<close>

type_synonym mstate = "ustr \<times> (nat \<times> ustr) list"

primrec star_greedy :: "(mstate \<Rightarrow> mstate list) \<Rightarrow> nat \<Rightarrow> mstate \<Rightarrow> mstate list" where
  "star_greedy step 0 s = [s]"
| "star_greedy step (Suc n) s =
     concat (map (star_greedy step n)
               (filter (\<lambda>s'. length (fst s') < length (fst s)) (step s))) @ [s]"

primrec star_lazy :: "(mstate \<Rightarrow> mstate list) \<Rightarrow> nat \<Rightarrow> mstate \<Rightarrow> mstate list" where
  "star_lazy step 0 s = [s]"
| "star_lazy step (Suc n) s =
     s # concat (map (star_lazy step n)
                   (filter (\<lambda>s'. length (fst s') < length (fst s)) (step s)))"

primrec matches :: "regex \<Rightarrow> mstate \<Rightarrow> mstate list" where
  "matches (OneOf as) s =
     (case fst s of
        [] \<Rightarrow> []
      | c # cs \<Rightarrow> if list_ex (\<lambda>a. atom_ok a c) as then [(cs, snd s)] else [])"
| "matches (NoneOf as) s =
     (case fst s of
        [] \<Rightarrow> []
      | c # cs \<Rightarrow> if list_ex (\<lambda>a. atom_ok a c) as then [] else [(cs, snd s)])"
| "matches Eps s = [s]"
| "matches (Seq a b) s = concat (map (matches b) (matches a s))"
| "matches (Alt a b) s = matches a s @ matches b s"
| "matches (Opt a) s = matches a s @ [s]"
| "matches (Star a) s = star_greedy (matches a) (length (fst s)) s"
| "matches (Plus a) s =
     concat (map (star_greedy (matches a) (length (fst s))) (matches a s))"
| "matches (PlusLazy a) s =
     concat (map (star_lazy (matches a) (length (fst s))) (matches a s))"
| "matches (Group n a) s =
     map (\<lambda>s'. (fst s', (n, take (length (fst s) - length (fst s')) (fst s)) # snd s'))
       (matches a s)"
| "matches (Ahead a) s =
     (case matches a s of [] \<Rightarrow> [] | s' # _ \<Rightarrow> [(fst s, snd s')])"
| "matches Eos s = (if fst s = [] \<or> fst s = [0x0A] then [s] else [])"

text \<open>\<^verbatim>\<open>m.group(n)\<close>; a group that took no part in the match reads as the empty string.\<close>

definition group :: "(nat \<times> ustr) list \<Rightarrow> nat \<Rightarrow> ustr" where
  "group caps n = (case map_of caps n of None \<Rightarrow> [] | Some t \<Rightarrow> t)"

text \<open>
  Scanning a text from left to right, as \<^verbatim>\<open>finditer\<close>, \<^verbatim>\<open>findall\<close> and \<^verbatim>\<open>sub\<close> do:
  at each position the pattern is tried; a match is recorded with its groups (group 0 is
  the matched text) and the scan goes on behind it; where nothing matches the character
  is passed over. The second argument counts the characters of the last match still to
  be skipped. (After an empty match the scan moves on by one character; the patterns of
  the adapters match no empty text.)
\<close>

datatype piece = Plain int | Hit "(nat \<times> ustr) list"

fun scan :: "regex \<Rightarrow> nat \<Rightarrow> ustr \<Rightarrow> piece list" where
  "scan r k [] =
     (if k = 0
      then (case matches r ([], []) of [] \<Rightarrow> [] | s' # _ \<Rightarrow> [Hit ((0, []) # snd s')])
      else [])"
| "scan r (Suc k) (c # cs) = scan r k cs"
| "scan r 0 (c # cs) =
     (case matches r (c # cs, []) of
        [] \<Rightarrow> Plain c # scan r 0 cs
      | s' # _ \<Rightarrow>
          (let n = length (c # cs) - length (fst s')
           in if n = 0 then Hit ((0, []) # snd s') # Plain c # scan r 0 cs
              else Hit ((0, take n (c # cs)) # snd s') # scan r (n - 1) cs))"

definition finditer :: "regex \<Rightarrow> ustr \<Rightarrow> (nat \<times> ustr) list list" where
  "finditer r t = concat (map (\<lambda>p. case p of Plain c \<Rightarrow> [] | Hit caps \<Rightarrow> [caps]) (scan r 0 t))"

text \<open>\<^verbatim>\<open>re.sub(r, '\1', t)\<close>: every match is replaced by its first group.\<close>

definition sub_group1 :: "regex \<Rightarrow> ustr \<Rightarrow> ustr" where
  "sub_group1 r t =
     concat (map (\<lambda>p. case p of Plain c \<Rightarrow> [c] | Hit caps \<Rightarrow> group caps 1) (scan r 0 t))"

text \<open>A literal string, and the alternation of a list of patterns (\<^verbatim>\<open>"|".join(...)\<close>).\<close>

definition lit :: "ustr \<Rightarrow> regex" where
  "lit t = foldr (\<lambda>c r. Seq (OneOf [AChr c]) r) t Eps"

definition alts :: "regex list \<Rightarrow> regex" where
  "alts rs = foldr Alt rs (OneOf [])"

text \<open>The numbers of the groups that occur in a pattern.\<close>

primrec groups_of :: "regex \<Rightarrow> nat set" where
  "groups_of (OneOf as) = {}"
| "groups_of (NoneOf as) = {}"
| "groups_of Eps = {}"
| "groups_of (Seq a b) = groups_of a \<union> groups_of b"
| "groups_of (Alt a b) = groups_of a \<union> groups_of b"
| "groups_of (Opt a) = groups_of a"
| "groups_of (Star a) = groups_of a"
| "groups_of (Plus a) = groups_of a"
| "groups_of (PlusLazy a) = groups_of a"
| "groups_of (Group n a) = insert n (groups_of a)"
| "groups_of (Ahead a) = groups_of a"
| "groups_of Eos = {}"

section \<open>Literals of the adapters\<close>

text \<open>
  The Chinese literals of the adapters, each with its code points:
  \<^item> \<open>zh_putongpi\<close>: U+666E U+901A U+6279 (putong pi, general batch)
  \<^item> \<open>zh_pici\<close>: U+6279 U+6B21 (pici, batch)
  \<^item> \<open>zh_fenshuxian\<close>: U+5206 U+6570 U+7EBF (fenshuxian, score line)
  \<^item> \<open>zh_tongzhaopi\<close>: U+7EDF U+62DB U+6279 (tongzhao pi, general-enrolment batch)
  \<^item> \<open>zh_dingxiangpi\<close>: U+5B9A U+5411 U+6279 (dingxiang pi, targeted batch)
  \<^item> \<open>zh_lbracket\<close>: U+3010 (left lenticular bracket)
  \<^item> \<open>zh_rbracket\<close>: U+3011 (right lenticular bracket)
  \<^item> \<open>zh_tiqianpici\<close>: U+63D0 U+524D U+6279 U+6B21 (tiqian pici, early batch)
  \<^item> \<open>zh_tiqianpi\<close>: U+63D0 U+524D U+6279 (tiqian pi, early batch)
  \<^item> \<open>zh_like_dingxiang\<close>: U+7406 U+79D1 U+5B9A U+5411 (like dingxiang, science targeted)
  \<^item> \<open>zh_makesi\<close>: U+9A6C U+514B U+601D U+4E3B U+4E49 U+7406 U+8BBA (Marxist theory)
  \<^item> \<open>zh_yishushilun\<close>: U+827A U+672F U+53F2 U+8BBA (yishu shilun, art history and theory)
  \<^item> \<open>zh_guojiazhuanxiang\<close>: U+56FD U+5BB6 U+4E13 U+9879 (guojia zhuanxiang, national special)
  \<^item> \<open>zh_guojiazhuanxiangjihua\<close>: U+56FD U+5BB6 U+4E13 U+9879 U+8BA1 U+5212 (guojia zhuanxiang jihua, national special plan)
  \<^item> \<open>zh_gaoxiaozhuanxiang\<close>: U+9AD8 U+6821 U+4E13 U+9879 (gaoxiao zhuanxiang, university special)
  \<^item> \<open>zh_gaoxiaozhuanxiangjihua\<close>: U+9AD8 U+6821 U+4E13 U+9879 U+8BA1 U+5212 (gaoxiao zhuanxiang jihua, university special plan)
  \<^item> \<open>zh_dingxiangsheng\<close>: U+5B9A U+5411 U+751F (dingxiang sheng, targeted student)
  \<^item> \<open>zh_dingxiang\<close>: U+5B9A U+5411 (dingxiang, targeted)
  \<^item> \<open>zh_benkeyipi\<close>: U+672C U+79D1 U+4E00 U+6279 (benke yipi, first undergraduate batch)
  \<^item> \<open>zh_yipici\<close>: U+4E00 U+6279 U+6B21 (yi pici, first batch)
  \<^item> \<open>zh_benkeerpi\<close>: U+672C U+79D1 U+4E8C U+6279 (benke erpi, second undergraduate batch)
  \<^item> \<open>zh_erpici\<close>: U+4E8C U+6279 U+6B21 (er pici, second batch)
  \<^item> \<open>zh_luqufenshuxian\<close>: U+5F55 U+53D6 U+5206 U+6570 U+7EBF (luqu fenshuxian, admission score line)
  \<^item> \<open>zh_colon\<close>: U+FF1A (full-width colon)
  \<^item> \<open>zh_semicolon\<close>: U+FF1B (full-width semicolon)
  \<^item> \<open>zh_comma\<close>: U+FF0C (full-width comma)
  \<^item> \<open>zh_lun\<close>: U+8BBA (lun)
  \<^item> \<open>zh_fen\<close>: U+5206 (fen, points)
  \<^item> \<open>zh_sheng\<close>: U+7701 (sheng, province)
  \<^item> \<open>zh_shi\<close>: U+5E02 (shi, municipality)
  \<^item> \<open>zh_zizhiqu\<close>: U+81EA U+6CBB U+533A (zizhiqu, autonomous region)
  \<^item> \<open>zh_tebiexingzhengqu\<close>: U+7279 U+522B U+884C U+653F U+533A (tebie xingzhengqu, special administrative region)
  \<^item> \<open>zh_tongzhao\<close>: U+7EDF U+62DB (tongzhao, general enrolment)
  \<^item> \<open>zh_like\<close>: U+7406 U+79D1 (like, science)
  \<^item> \<open>zh_ligong\<close>: U+7406 U+5DE5 (ligong, science and engineering)
  \<^item> \<open>zh_wenke\<close>: U+6587 U+79D1 (wenke, arts)
  \<^item> \<open>zh_wenshi\<close>: U+6587 U+53F2 (wenshi, humanities)
  \<^item> \<open>zh_wuli\<close>: U+7269 U+7406 (wuli, physics)
  \<^item> \<open>zh_wuhua\<close>: U+7269 U+5316 (wuhua, physics and chemistry)
  \<^item> \<open>zh_zonghegaige\<close>: U+7EFC U+5408 U+6539 U+9769 (zonghe gaige, comprehensive reform)
  \<^item> \<open>zh_wuhuazu\<close>: U+7269 U+5316 U+7EC4 (wuhua zu, physics-chemistry group)
  \<^item> \<open>zh_wulizu\<close>: U+7269 U+7406 U+7EC4 (wuli zu, physics group)
  \<^item> \<open>zh_lishi\<close>: U+5386 U+53F2 (lishi, history)
  \<^item> \<open>zh_lishizu\<close>: U+5386 U+53F2 U+7EC4 (lishi zu, history group)
  \<^item> \<open>zh_buxian\<close>: U+4E0D U+9650 (buxian, unrestricted)
  \<^item> \<open>zh_buxianzu\<close>: U+4E0D U+9650 U+7EC4 (buxian zu, unrestricted group)
  \<^item> \<open>zh_tongyong\<close>: U+901A U+7528 (tongyong, general)
  \<^item> \<open>zh_tongyongzu\<close>: U+901A U+7528 U+7EC4 (tongyong zu, general group)
  \<^item> \<open>zh_yixue\<close>: U+533B U+5B66 (yixue, medicine)
  \<^item> \<open>zh_linchuangyixue\<close>: U+4E34 U+5E8A U+533B U+5B66 (linchuang yixue, clinical medicine)
  \<^item> \<open>zh_yixuelei\<close>: U+533B U+5B66 U+7C7B (yixue lei, medicine class)
  \<^item> \<open>zh_yishulei\<close>: U+827A U+672F U+7C7B (yishu lei, arts class)
  \<^item> \<open>zh_yishu\<close>: U+827A U+672F (yishu, art)
  \<^item> \<open>zh_shejixue\<close>: U+8BBE U+8BA1 U+5B66 (shejixue, design)
  \<^item> \<open>zh_yinyuebiaoyan\<close>: U+97F3 U+4E50 U+8868 U+6F14 (yinyue biaoyan, music performance)
  \<^item> \<open>zh_boyin\<close>: U+64AD U+97F3 U+4E0E U+4E3B U+6301 (boyin yu zhuchi, broadcasting and hosting)
  \<^item> \<open>zh_wudaobiaoyan\<close>: U+821E U+8E48 U+8868 U+6F14 (wudao biaoyan, dance performance)
  \<^item> \<open>zh_lparen\<close>: U+FF08 (full-width left parenthesis)
  \<^item> \<open>zh_hanzu\<close>: U+6C49 U+65CF (Hanzu, Han)
  \<^item> \<open>zh_shaoshuminzu\<close>: U+5C11 U+6570 U+6C11 U+65CF (shaoshu minzu, ethnic minorities)
  \<^item> \<open>zh_paren_hanzu\<close>: U+FF08 U+6C49 U+65CF U+FF09 (Han, in full-width parentheses)
  \<^item> \<open>zh_paren_shaoshuminzu\<close>: U+FF08 U+5C11 U+6570 U+6C11 U+65CF U+FF09 (ethnic minorities, in full-width parentheses)
  \<^item> \<open>zh_qinghua\<close>: U+6E05 U+534E U+5927 U+5B66 (Tsinghua University)
  \<^item> \<open>zh_huake\<close>: U+534E U+4E2D U+79D1 U+6280 U+5927 U+5B66 (Huazhong University of Science and Technology)
  \<^item> \<open>zh_beida\<close>: U+5317 U+4EAC U+5927 U+5B66 (Peking University)
  \<^item> \<open>zh_beijing\<close>: U+5317 U+4EAC (Beijing)
  \<^item> \<open>zh_tianjin\<close>: U+5929 U+6D25 (Tianjin)
  \<^item> \<open>zh_hebei\<close>: U+6CB3 U+5317 (Hebei)
  \<^item> \<open>zh_xinjiang\<close>: U+65B0 U+7586 (Xinjiang)
  \<^item> \<open>zh_xizang\<close>: U+897F U+85CF (Xizang)
  \<^item> \<open>zh_emdash\<close>: U+2014 (em dash)
\<close>

definition zh_putongpi :: ustr where "zh_putongpi = [0x666E, 0x901A, 0x6279]"
definition zh_pici :: ustr where "zh_pici = [0x6279, 0x6B21]"
definition zh_fenshuxian :: ustr where "zh_fenshuxian = [0x5206, 0x6570, 0x7EBF]"
definition zh_tongzhaopi :: ustr where "zh_tongzhaopi = [0x7EDF, 0x62DB, 0x6279]"
definition zh_dingxiangpi :: ustr where "zh_dingxiangpi = [0x5B9A, 0x5411, 0x6279]"
definition zh_lbracket :: ustr where "zh_lbracket = [0x3010]"
definition zh_rbracket :: ustr where "zh_rbracket = [0x3011]"
definition zh_tiqianpici :: ustr where "zh_tiqianpici = [0x63D0, 0x524D, 0x6279, 0x6B21]"
definition zh_tiqianpi :: ustr where "zh_tiqianpi = [0x63D0, 0x524D, 0x6279]"
definition zh_like_dingxiang :: ustr where "zh_like_dingxiang = [0x7406, 0x79D1, 0x5B9A, 0x5411]"
definition zh_makesi :: ustr where
  "zh_makesi = [0x9A6C, 0x514B, 0x601D, 0x4E3B, 0x4E49, 0x7406, 0x8BBA]"
definition zh_yishushilun :: ustr where "zh_yishushilun = [0x827A, 0x672F, 0x53F2, 0x8BBA]"
definition zh_guojiazhuanxiang :: ustr where
  "zh_guojiazhuanxiang = [0x56FD, 0x5BB6, 0x4E13, 0x9879]"
definition zh_guojiazhuanxiangjihua :: ustr where
  "zh_guojiazhuanxiangjihua = [0x56FD, 0x5BB6, 0x4E13, 0x9879, 0x8BA1, 0x5212]"
definition zh_gaoxiaozhuanxiang :: ustr where
  "zh_gaoxiaozhuanxiang = [0x9AD8, 0x6821, 0x4E13, 0x9879]"
definition zh_gaoxiaozhuanxiangjihua :: ustr where
  "zh_gaoxiaozhuanxiangjihua = [0x9AD8, 0x6821, 0x4E13, 0x9879, 0x8BA1, 0x5212]"
definition zh_dingxiangsheng :: ustr where "zh_dingxiangsheng = [0x5B9A, 0x5411, 0x751F]"
definition zh_dingxiang :: ustr where "zh_dingxiang = [0x5B9A, 0x5411]"
definition zh_benkeyipi :: ustr where "zh_benkeyipi = [0x672C, 0x79D1, 0x4E00, 0x6279]"
definition zh_yipici :: ustr where "zh_yipici = [0x4E00, 0x6279, 0x6B21]"
definition zh_benkeerpi :: ustr where "zh_benkeerpi = [0x672C, 0x79D1, 0x4E8C, 0x6279]"
definition zh_erpici :: ustr where "zh_erpici = [0x4E8C, 0x6279, 0x6B21]"
definition zh_luqufenshuxian :: ustr where
  "zh_luqufenshuxian = [0x5F55, 0x53D6, 0x5206, 0x6570, 0x7EBF]"
definition zh_colon :: ustr where "zh_colon = [0xFF1A]"
definition zh_semicolon :: ustr where "zh_semicolon = [0xFF1B]"
definition zh_comma :: ustr where "zh_comma = [0xFF0C]"
definition zh_lun :: ustr where "zh_lun = [0x8BBA]"
definition zh_fen :: ustr where "zh_fen = [0x5206]"
definition zh_sheng :: ustr where "zh_sheng = [0x7701]"
definition zh_shi :: ustr where "zh_shi = [0x5E02]"
definition zh_zizhiqu :: ustr where "zh_zizhiqu = [0x81EA, 0x6CBB, 0x533A]"
definition zh_tebiexingzhengqu :: ustr where
  "zh_tebiexingzhengqu = [0x7279, 0x522B, 0x884C, 0x653F, 0x533A]"
definition zh_tongzhao :: ustr where "zh_tongzhao = [0x7EDF, 0x62DB]"
definition zh_like :: ustr where "zh_like = [0x7406, 0x79D1]"
definition zh_ligong :: ustr where "zh_ligong = [0x7406, 0x5DE5]"
definition zh_wenke :: ustr where "zh_wenke = [0x6587, 0x79D1]"
definition zh_wenshi :: ustr where "zh_wenshi = [0x6587, 0x53F2]"
definition zh_wuli :: ustr where "zh_wuli = [0x7269, 0x7406]"
definition zh_wuhua :: ustr where "zh_wuhua = [0x7269, 0x5316]"
definition zh_zonghegaige :: ustr where "zh_zonghegaige = [0x7EFC, 0x5408, 0x6539, 0x9769]"
definition zh_wuhuazu :: ustr where "zh_wuhuazu = [0x7269, 0x5316, 0x7EC4]"
definition zh_wulizu :: ustr where "zh_wulizu = [0x7269, 0x7406, 0x7EC4]"
definition zh_lishi :: ustr where "zh_lishi = [0x5386, 0x53F2]"
definition zh_lishizu :: ustr where "zh_lishizu = [0x5386, 0x53F2, 0x7EC4]"
definition zh_buxian :: ustr where "zh_buxian = [0x4E0D, 0x9650]"
definition zh_buxianzu :: ustr where "zh_buxianzu = [0x4E0D, 0x9650, 0x7EC4]"
definition zh_tongyong :: ustr where "zh_tongyong = [0x901A, 0x7528]"
definition zh_tongyongzu :: ustr where "zh_tongyongzu = [0x901A, 0x7528, 0x7EC4]"
definition zh_yixue :: ustr where "zh_yixue = [0x533B, 0x5B66]"
definition zh_linchuangyixue :: ustr where "zh_linchuangyixue = [0x4E34, 0x5E8A, 0x533B, 0x5B66]"
definition zh_yixuelei :: ustr where "zh_yixuelei = [0x533B, 0x5B66, 0x7C7B]"
definition zh_yishulei :: ustr where "zh_yishulei = [0x827A, 0x672F, 0x7C7B]"
definition zh_yishu :: ustr where "zh_yishu = [0x827A, 0x672F]"
definition zh_shejixue :: ustr where "zh_shejixue = [0x8BBE, 0x8BA1, 0x5B66]"
definition zh_yinyuebiaoyan :: ustr where "zh_yinyuebiaoyan = [0x97F3, 0x4E50, 0x8868, 0x6F14]"
definition zh_boyin :: ustr where "zh_boyin = [0x64AD, 0x97F3, 0x4E0E, 0x4E3B, 0x6301]"
definition zh_wudaobiaoyan :: ustr where "zh_wudaobiaoyan = [0x821E, 0x8E48, 0x8868, 0x6F14]"
definition zh_lparen :: ustr where "zh_lparen = [0xFF08]"
definition zh_hanzu :: ustr where "zh_hanzu = [0x6C49, 0x65CF]"
definition zh_shaoshuminzu :: ustr where "zh_shaoshuminzu = [0x5C11, 0x6570, 0x6C11, 0x65CF]"
definition zh_paren_hanzu :: ustr where "zh_paren_hanzu = [0xFF08, 0x6C49, 0x65CF, 0xFF09]"
definition zh_paren_shaoshuminzu :: ustr where
  "zh_paren_shaoshuminzu = [0xFF08, 0x5C11, 0x6570, 0x6C11, 0x65CF, 0xFF09]"
definition zh_qinghua :: ustr where "zh_qinghua = [0x6E05, 0x534E, 0x5927, 0x5B66]"
definition zh_huake :: ustr where "zh_huake = [0x534E, 0x4E2D, 0x79D1, 0x6280, 0x5927, 0x5B66]"
definition zh_beida :: ustr where "zh_beida = [0x5317, 0x4EAC, 0x5927, 0x5B66]"
definition zh_beijing :: ustr where "zh_beijing = [0x5317, 0x4EAC]"
definition zh_tianjin :: ustr where "zh_tianjin = [0x5929, 0x6D25]"
definition zh_hebei :: ustr where "zh_hebei = [0x6CB3, 0x5317]"
definition zh_xinjiang :: ustr where "zh_xinjiang = [0x65B0, 0x7586]"
definition zh_xizang :: ustr where "zh_xizang = [0x897F, 0x85CF]"
definition zh_emdash :: ustr where "zh_emdash = [0x2014]"

section \<open>The free-text adapters (tsinghua\_crawler.py, hust\_crawler.py)\<close>

text \<open>
  The record every adapter emits for one score: the dictionary with the thirteen fixed
  keys, in the order of the source (year, school, 985, 211, double first class, category,
  batch, major, lowest score, rank of the lowest score, admission code, admission type,
  source province).
\<close>

record admission_info =
  ai_year :: ustr
  ai_school :: ustr
  ai_985 :: ustr
  ai_211 :: ustr
  ai_dfc :: ustr
  ai_category :: ustr
  ai_batch :: ustr
  ai_major :: ustr
  ai_min_score :: ustr
  ai_min_rank :: ustr
  ai_code :: ustr
  ai_type :: ustr
  ai_province :: ustr

text \<open>
  A paragraph of the page as the HTML library hands it over: \<open>p_text\<close> is
  \<^verbatim>\<open>p.get_text(separator=' ', strip=True)\<close>, \<open>p_strong\<close> the stripped text of the first
  \<^verbatim>\<open>strong\<close> element of the paragraph, \<open>None\<close> when it has none.
\<close>

record html_paragraph =
  p_text :: ustr
  p_strong :: "ustr option"

text \<open>The list \<^verbatim>\<open>provinces\<close> of both adapters, in the order of the source.\<close>

definition provinces :: "ustr list" where
  "provinces =
    [[0x5185, 0x8499, 0x53E4], [0x9ED1, 0x9F99, 0x6C5F], [0x65B0, 0x7586],
     [0x897F, 0x85CF], [0x5B81, 0x590F], [0x9752, 0x6D77], [0x7518, 0x8083],
     [0x9655, 0x897F], [0x4E91, 0x5357], [0x8D35, 0x5DDE], [0x56DB, 0x5DDD],
     [0x91CD, 0x5E86], [0x6D77, 0x5357], [0x5E7F, 0x897F], [0x5E7F, 0x4E1C],
     [0x6E56, 0x5357], [0x6E56, 0x5317], [0x6CB3, 0x5357], [0x5C71, 0x4E1C],
     [0x6C5F, 0x897F], [0x798F, 0x5EFA], [0x5B89, 0x5FBD], [0x6D59, 0x6C5F],
     [0x6C5F, 0x82CF], [0x4E0A, 0x6D77], [0x5409, 0x6797], [0x8FBD, 0x5B81],
     [0x6CB3, 0x5317], [0x5C71, 0x897F], [0x5929, 0x6D25], [0x5317, 0x4EAC]]"

text \<open>
  The patterns. \<open>suffix_opt\<close> is the optional non-capturing group of the four
  administrative suffixes, \<open>colon\<close> the class of the full-width and the ASCII colon.
  \<open>province_pattern\<close> is pattern 1: a province (group 1), the optional suffix, a colon,
  then lazily one or more characters other than the full-width semicolon (group 2), up to
  a position followed by a province and a colon (group 3) or by the end of the text.
  \<open>item_pattern\<close> finds the items in group 2: lazily one or more characters that are
  neither a full-width semicolon nor a digit (group 1), digits (group 2), optional
  whitespace and U+5206. \<open>province_score_pattern\<close> is pattern 2: province (group 1),
  optional suffix, colon, optional whitespace, digits (group 2), optional whitespace and
  U+5206. \<open>decimal_pattern\<close> is \<^verbatim>\<open>(\d+)\.\d+\<close>.
\<close>

definition suffix_opt :: regex where
  "suffix_opt = Opt (alts (map lit [zh_sheng, zh_shi, zh_zizhiqu, zh_tebiexingzhengqu]))"

definition colon :: regex where
  "colon = OneOf [AChr 0xFF1A, AChr 0x3A]"

definition province_pattern :: regex where
  "province_pattern =
     Seq (Group 1 (alts (map lit provinces)))
    (Seq suffix_opt
    (Seq colon
    (Seq (Group 2 (PlusLazy (NoneOf [AChr 0xFF1B, AChr 0xFF1B])))
         (Ahead (Alt (Seq (Group 3 (alts (map lit provinces))) colon) Eos)))))"

definition item_pattern :: regex where
  "item_pattern =
     Seq (Group 1 (PlusLazy (NoneOf [AChr 0xFF1B, AChr 0xFF1B, ADigit])))
    (Seq (Group 2 (Plus (OneOf [ADigit])))
    (Seq (Star (OneOf [ASpace])) (lit zh_fen)))"

definition province_score_pattern :: regex where
  "province_score_pattern =
     Seq (Group 1 (alts (map lit provinces)))
    (Seq suffix_opt
    (Seq colon
    (Seq (Star (OneOf [ASpace]))
    (Seq (Group 2 (Plus (OneOf [ADigit])))
    (Seq (Star (OneOf [ASpace])) (lit zh_fen))))))"

definition decimal_pattern :: regex where
  "decimal_pattern =
     Seq (Group 1 (Plus (OneOf [ADigit]))) (Seq (OneOf [AChr 0x2E]) (Plus (OneOf [ADigit])))"

text \<open>
  The province clean-up shared by the HTML adapters:
  \<^verbatim>\<open>name.replace(sheng, '').replace(shi, '').replace(zizhiqu, '').replace(tebiexingzhengqu, '').strip()\<close>.
\<close>

definition remove_suffixes :: "ustr \<Rightarrow> ustr" where
  "remove_suffixes name =
     py_strip (py_remove zh_tebiexingzhengqu (py_remove zh_zizhiqu
       (py_remove zh_shi (py_remove zh_sheng name))))"

subsection \<open>Tsinghua\<close>

text \<open>
  The chain of tests of \<^verbatim>\<open>_create_admission_info\<close> on the stripped category-or-major
  text: the category, the major and the admission type it sets.
\<close>

definition tsinghua_classify :: "ustr \<Rightarrow> ustr \<times> ustr \<times> ustr" where
  "tsinghua_classify com =
     (if py_in zh_like com \<or> py_in zh_ligong com then
        (if py_in zh_dingxiang com then (zh_ligong, zh_dingxiangsheng, zh_dingxiangsheng)
         else (zh_ligong, u ''NA'', zh_tongzhao))
      else if py_in zh_wenke com \<or> py_in zh_wenshi com then (zh_wenshi, u ''NA'', zh_tongzhao)
      else if py_in zh_wuli com \<or> py_in zh_wuhua com then
        (if py_in zh_wuhua com then (zh_zonghegaige, zh_wuhuazu, zh_tongzhao)
         else if py_in zh_wuli com then (zh_zonghegaige, zh_wulizu, zh_tongzhao)
         else (zh_zonghegaige, u ''NA'', zh_tongzhao))
      else if py_in zh_lishi com then (zh_zonghegaige, zh_lishizu, zh_tongzhao)
      else if py_in zh_buxian com then (zh_zonghegaige, zh_buxianzu, zh_tongzhao)
      else if py_in zh_tongyong com then (zh_zonghegaige, zh_tongyongzu, zh_tongzhao)
      else if py_in zh_yixue com \<or> py_in zh_linchuangyixue com then
        (zh_zonghegaige, zh_yixuelei, zh_tongzhao)
      else if py_in zh_makesi com then (zh_zonghegaige, zh_makesi, zh_tongzhao)
      else if py_in zh_yishushilun com then (zh_yishulei, zh_yishushilun, zh_tongzhao)
      else if com \<noteq> [] then
        (if py_in zh_dingxiang com then (zh_ligong, com, zh_dingxiangsheng)
         else (u ''NA'', com, zh_tongzhao))
      else (u ''NA'', u ''NA'', zh_tongzhao))"

definition tsinghua_create_admission_info ::
  "int \<Rightarrow> ustr \<Rightarrow> ustr \<Rightarrow> ustr \<Rightarrow> ustr \<Rightarrow> admission_info option" where
  "tsinghua_create_admission_info year province_name category_or_major score current_batch =
     (let province = remove_suffixes province_name in
      if province = [] \<or> score = [] then None
      else
        (let com = py_strip category_or_major;
             cls = tsinghua_classify com;
             admission_type =
               (if py_in zh_dingxiang com \<or> snd (snd cls) = zh_dingxiangsheng
                then zh_dingxiangsheng
                else if py_in zh_guojiazhuanxiang current_batch then zh_guojiazhuanxiangjihua
                else snd (snd cls))
         in Some \<lparr> ai_year = str_of_int year, ai_school = zh_qinghua,
                   ai_985 = u ''1'', ai_211 = u ''1'', ai_dfc = u ''1'',
                   ai_category = fst cls, ai_batch = current_batch, ai_major = fst (snd cls),
                   ai_min_score = score, ai_min_rank = u ''NA'', ai_code = u ''10003'',
                   ai_type = admission_type, ai_province = province \<rparr>))"

text \<open>
  The batch-title test of the paragraph loop: when the \<^verbatim>\<open>strong\<close> text names a batch,
  the new batch and the new major hint.
\<close>

definition title_clean :: "ustr \<Rightarrow> ustr" where
  "title_clean batch_text =
     py_strip (py_remove (u '']'') (py_remove (u ''['') (py_remove zh_rbracket
       (py_remove zh_lbracket batch_text))))"

definition title_rest :: "ustr \<Rightarrow> ustr" where
  "title_rest batch_text_clean =
     py_strip (py_remove (u '':'') (py_remove zh_colon
       (py_remove zh_luqufenshuxian batch_text_clean)))"

definition tsinghua_title :: "ustr \<Rightarrow> (ustr \<times> ustr) option" where
  "tsinghua_title batch_text =
     (if py_in zh_pici batch_text \<or> py_in zh_fenshuxian batch_text
         \<or> py_in zh_tongzhaopi batch_text \<or> py_in zh_dingxiangpi batch_text
      then
        (let c = title_clean batch_text in
         if py_in zh_tiqianpici c \<or> py_in zh_tiqianpi c then
           (if py_in zh_like_dingxiang c then Some (zh_tiqianpi, zh_like_dingxiang)
            else if py_in zh_makesi c then Some (zh_tiqianpi, zh_makesi)
            else if py_in zh_yishushilun c then Some (zh_tiqianpi, zh_yishushilun)
            else Some (zh_tiqianpi, []))
         else if py_in zh_guojiazhuanxiang c then Some (zh_guojiazhuanxiangjihua, [])
         else if py_in zh_dingxiangpi c then Some (zh_tiqianpi, zh_dingxiangsheng)
         else if py_in zh_benkeyipi c \<or> py_in zh_yipici c \<or> py_in zh_tongzhaopi c
           then Some (zh_benkeyipi, [])
         else if py_in zh_benkeerpi c \<or> py_in zh_erpici c then Some (zh_benkeerpi, [])
         else Some (title_rest c, []))
      else None)"

text \<open>
  What the loop does with a paragraph that is not a batch title. The result keeps apart
  what each pattern gave: the items of pattern 1 (province, category-or-major, score) and
  the records made of them, whether pattern 2 was applied, and its records. The records
  appended to the list are those of pattern 1 followed by those of pattern 2.
\<close>

record para_result =
  format1_items :: "(ustr \<times> ustr \<times> ustr) list"
  format1_records :: "admission_info list"
  format2_applied :: bool
  format2_records :: "admission_info list"

definition format1_matches :: "ustr \<Rightarrow> (nat \<times> ustr) list list" where
  "format1_matches text =
     (if py_in zh_semicolon text \<or> py_in (u '';'') text
      then finditer province_pattern text else [])"

definition items_of :: "(nat \<times> ustr) list \<Rightarrow> (ustr \<times> ustr \<times> ustr) list" where
  "items_of m =
     map (\<lambda>item. (group m 1, py_strip (group item 1), group item 2))
       (finditer item_pattern (group m 2))"

definition tsinghua_paragraph :: "int \<Rightarrow> ustr \<Rightarrow> ustr \<Rightarrow> ustr \<Rightarrow> para_result" where
  "tsinghua_paragraph year current_batch current_major_hint text0 =
     (let text = sub_group1 decimal_pattern text0;
          ms = format1_matches text;
          format1_matched = (ms \<noteq> []);
          items = concat (map items_of ms)
      in \<lparr> format1_items = items,
           format1_records =
             List.map_filter
               (\<lambda>(province_name, category_or_major, score).
                  tsinghua_create_admission_info year province_name
                    (if category_or_major = []
                        \<or> category_or_major \<in> set [zh_colon, u '':'', zh_comma, u '','', zh_lun]
                     then current_major_hint else category_or_major)
                    score current_batch)
               items,
           format2_applied = (\<not> format1_matched),
           format2_records =
             (if \<not> format1_matched
              then List.map_filter
                     (\<lambda>m. tsinghua_create_admission_info year (group m 1) current_major_hint
                            (group m 2) current_batch)
                     (finditer province_score_pattern text)
              else []) \<rparr>)"

fun tsinghua_paragraphs :: "int \<Rightarrow> html_paragraph list \<Rightarrow> ustr \<Rightarrow> ustr \<Rightarrow> admission_info list" where
  "tsinghua_paragraphs year [] current_batch current_major_hint = []"
| "tsinghua_paragraphs year (p # ps) current_batch current_major_hint =
     (if p_text p = [] then tsinghua_paragraphs year ps current_batch current_major_hint
      else
        (case (case p_strong p of None \<Rightarrow> None | Some batch_text \<Rightarrow> tsinghua_title batch_text) of
           Some (b, h) \<Rightarrow> tsinghua_paragraphs year ps b h
         | None \<Rightarrow>
             (let r = tsinghua_paragraph year current_batch current_major_hint (p_text p)
              in format1_records r @ format2_records r
                   @ tsinghua_paragraphs year ps current_batch current_major_hint)))"

definition tsinghua_parse_paragraph_format :: "html_paragraph list \<Rightarrow> int \<Rightarrow> admission_info list" where
  "tsinghua_parse_paragraph_format paragraphs year =
     tsinghua_paragraphs year paragraphs zh_putongpi []"

subsection \<open>HUST\<close>

definition hust_extract_category_from_major :: "ustr \<Rightarrow> ustr" where
  "hust_extract_category_from_major major =
     (if major = [] \<or> major = u ''NA'' then u ''NA''
      else if list_ex (\<lambda>keyword. py_in keyword major)
                [zh_shejixue, zh_yinyuebiaoyan, zh_boyin, zh_wudaobiaoyan, zh_yishu]
        then zh_yishulei
      else if py_in zh_wuli major \<or> py_in zh_wuhua major then zh_zonghegaige
      else if py_in zh_lishi major then zh_zonghegaige
      else if py_in zh_like major \<or> py_in zh_ligong major then zh_ligong
      else if py_in zh_wenke major \<or> py_in zh_wenshi major then zh_wenshi
      else u ''NA'')"

text \<open>The province clean-up of the HUST adapter: suffixes, then the parenthesised part.\<close>

definition hust_province :: "ustr \<Rightarrow> ustr" where
  "hust_province province_name =
     (let p1 = remove_suffixes province_name;
          p2 = (if py_in zh_lparen p1 then split_head 0xFF08 p1 else p1)
      in if py_in zh_hanzu p2 \<or> py_in zh_shaoshuminzu p2
         then py_strip (py_remove zh_paren_shaoshuminzu (py_remove zh_paren_hanzu p2))
         else p2)"

definition hust_create_admission_info ::
  "int \<Rightarrow> ustr \<Rightarrow> ustr \<Rightarrow> ustr \<Rightarrow> ustr \<Rightarrow> ustr \<Rightarrow> ustr \<Rightarrow> admission_info option" where
  "hust_create_admission_info year province_name category score batch major rank =
     (let province = hust_province province_name in
      if province = [] \<or> score = [] then None
      else
        (let admission_type =
               (if py_in zh_guojiazhuanxiang batch then zh_guojiazhuanxiangjihua
                else if py_in zh_gaoxiaozhuanxiang batch then zh_gaoxiaozhuanxiangjihua
                else if py_in zh_dingxiang batch \<or> py_in zh_dingxiang major then zh_dingxiangsheng
                else if py_in zh_yishulei batch \<or> category = zh_yishulei then zh_yishulei
                else zh_tongzhao);
             category2 =
               (if category = u ''NA'' then
                  (if py_in zh_yishulei batch \<or> py_in zh_yishu major then zh_yishulei
                   else if py_in zh_wuli major \<or> py_in zh_wuhua major then zh_zonghegaige
                   else if py_in zh_lishi major then zh_zonghegaige
                   else category)
                else category)
         in Some \<lparr> ai_year = str_of_int year, ai_school = zh_huake,
                   ai_985 = u ''1'', ai_211 = u ''1'', ai_dfc = u ''1'',
                   ai_category = category2, ai_batch = batch,
                   ai_major = (if major \<noteq> u ''NA'' then major else u ''NA''),
                   ai_min_score = score,
                   ai_min_rank = (if rank \<noteq> u ''NA'' then rank else u ''NA''),
                   ai_code = u ''10487'', ai_type = admission_type,
                   ai_province = province \<rparr>))"

definition hust_title :: "ustr \<Rightarrow> ustr option" where
  "hust_title batch_text =
     (if py_in zh_pici batch_text \<or> py_in zh_fenshuxian batch_text
      then
        (let c = title_clean batch_text in
         if py_in zh_tiqianpici c \<or> py_in zh_tiqianpi c then Some zh_tiqianpi
         else if py_in zh_guojiazhuanxiang c then Some zh_guojiazhuanxiangjihua
         else if py_in zh_benkeyipi c \<or> py_in zh_yipici c then Some zh_benkeyipi
         else if py_in zh_benkeerpi c \<or> py_in zh_erpici c then Some zh_benkeerpi
         else Some (title_rest c))
      else None)"

text \<open>The HUST loop body: pattern 2 is applied to every paragraph.\<close>

definition hust_paragraph :: "int \<Rightarrow> ustr \<Rightarrow> ustr \<Rightarrow> para_result" where
  "hust_paragraph year current_batch text0 =
     (let text = sub_group1 decimal_pattern text0;
          ms = format1_matches text;
          items = concat (map items_of ms)
      in \<lparr> format1_items = items,
           format1_records =
             List.map_filter
               (\<lambda>(province_name, category_or_major, score).
                  hust_create_admission_info year province_name
                    (hust_extract_category_from_major category_or_major) score current_batch
                    category_or_major (u ''NA''))
               items,
           format2_applied = True,
           format2_records =
             List.map_filter
               (\<lambda>m. hust_create_admission_info year (group m 1) (u ''NA'') (group m 2)
                      current_batch (u ''NA'') (u ''NA''))
               (finditer province_score_pattern text) \<rparr>)"

fun hust_paragraphs :: "int \<Rightarrow> html_paragraph list \<Rightarrow> ustr \<Rightarrow> admission_info list" where
  "hust_paragraphs year [] current_batch = []"
| "hust_paragraphs year (p # ps) current_batch =
     (if p_text p = [] then hust_paragraphs year ps current_batch
      else
        (case (case p_strong p of None \<Rightarrow> None | Some batch_text \<Rightarrow> hust_title batch_text) of
           Some b \<Rightarrow> hust_paragraphs year ps b
         | None \<Rightarrow>
             (let r = hust_paragraph year current_batch (p_text p)
              in format1_records r @ format2_records r
                   @ hust_paragraphs year ps current_batch)))"

definition hust_parse_paragraph_format :: "html_paragraph list \<Rightarrow> int \<Rightarrow> admission_info list" where
  "hust_parse_paragraph_format paragraphs year = hust_paragraphs year paragraphs zh_benkeyipi"

subsection \<open>The HUST table rows\<close>

text \<open>
  A data row of \<^verbatim>\<open>_parse_table_format\<close>, from the four cell texts on: the province
  cell (the current province, when the cell is spanned), the category-or-batch cell and
  the cell of the lowest score; the cell of the highest score is not used. The province
  is cleaned with the statements that \<^verbatim>\<open>_create_admission_info\<close> repeats. The local
  \<^verbatim>\<open>clean_score\<close> finds the first number (\<^verbatim>\<open>(\d+(?:\.\d+)?)\<close>) and gives
  \<^verbatim>\<open>str(int(float(...)))\<close>; \<open>py_float\<close> is \<open>None\<close> where the float is infinite, on which
  \<^verbatim>\<open>int\<close> raises, and then the row gives \<open>None\<close>.
\<close>

definition batch_keywords :: "ustr list" where
  "batch_keywords = [zh_guojiazhuanxiang, zh_gaoxiaozhuanxiang, zh_yishulei, zh_tiqianpi,
                     zh_benkeyipi, zh_benkeerpi, zh_putongpi]"

definition number_pattern :: regex where
  "number_pattern =
     Group 1 (Seq (Plus (OneOf [ADigit]))
                  (Opt (Seq (OneOf [AChr 0x2E]) (Plus (OneOf [ADigit])))))"

definition hust_clean_score :: "(ustr \<Rightarrow> rat option) \<Rightarrow> ustr \<Rightarrow> ustr option option" where
  "hust_clean_score py_float score_str =
     (if score_str = [] \<or> score_str = u ''-'' \<or> score_str = zh_emdash \<or> score_str = u ''NA''
      then Some None
      else (case finditer number_pattern score_str of
              [] \<Rightarrow> Some None
            | m # _ \<Rightarrow>
                (case py_float (group m 1) of
                   None \<Rightarrow> None
                 | Some score_value \<Rightarrow> Some (Some (str_of_int (py_int_of_float score_value))))))"

definition hust_table_row ::
  "(ustr \<Rightarrow> rat option) \<Rightarrow> int \<Rightarrow> ustr \<Rightarrow> ustr \<Rightarrow> ustr \<Rightarrow> ustr \<Rightarrow> admission_info list option" where
  "hust_table_row py_float year province0 category_batch_col min_score current_batch =
     (let province = hust_province province0;
          is_batch = list_ex (\<lambda>keyword. py_in keyword category_batch_col) batch_keywords;
          batch =
            (if is_batch then
               (if py_in zh_guojiazhuanxiang category_batch_col then zh_guojiazhuanxiangjihua
                else if py_in zh_gaoxiaozhuanxiang category_batch_col
                  then zh_gaoxiaozhuanxiangjihua
                else if py_in zh_yishulei category_batch_col then zh_yishulei
                else category_batch_col)
             else current_batch);
          major = (if is_batch then u ''NA'' else category_batch_col);
          category_type = hust_extract_category_from_major major
      in if province \<noteq> [] \<and> min_score \<noteq> [] then
           (case hust_clean_score py_float min_score of
              None \<Rightarrow> None
            | Some None \<Rightarrow> Some []
            | Some (Some score_value) \<Rightarrow>
                (case hust_create_admission_info year province category_type score_value
                        batch major (u ''NA'') of
                   None \<Rightarrow> Some []
                 | Some admission_info \<Rightarrow> Some [admission_info]))
         else Some [])"

subsection \<open>The fallback text parser\<close>

text \<open>
  \<^verbatim>\<open>_parse_text_content\<close> is the same in both adapters but for the school, its code and
  the batch. It has its own list of the 31 provinces, in another order. The text is split
  at U+000A; a line that names a province sets the current province (the first of the
  list that occurs in the line), and a line with a run of three or more digits
  (\<^verbatim>\<open>re.search(r'(\d{3,})', line)\<close>, written below as two digits and one or more digits)
  gives a record for the current province unless the list already has one with the same
  province and score.
\<close>

definition text_provinces :: "ustr list" where
  "text_provinces =
    [[0x5317, 0x4EAC], [0x5929, 0x6D25], [0x6CB3, 0x5317], [0x5C71, 0x897F],
     [0x5185, 0x8499, 0x53E4], [0x8FBD, 0x5B81], [0x5409, 0x6797], [0x9ED1, 0x9F99, 0x6C5F],
     [0x4E0A, 0x6D77], [0x6C5F, 0x82CF], [0x6D59, 0x6C5F], [0x5B89, 0x5FBD],
     [0x798F, 0x5EFA], [0x6C5F, 0x897F], [0x5C71, 0x4E1C], [0x6CB3, 0x5357],
     [0x6E56, 0x5317], [0x6E56, 0x5357], [0x5E7F, 0x4E1C], [0x5E7F, 0x897F],
     [0x6D77, 0x5357], [0x91CD, 0x5E86], [0x56DB, 0x5DDD], [0x8D35, 0x5DDE],
     [0x4E91, 0x5357], [0x897F, 0x85CF], [0x9655, 0x897F], [0x7518, 0x8083],
     [0x9752, 0x6D77], [0x5B81, 0x590F], [0x65B0, 0x7586]]"

fun split_on :: "int \<Rightarrow> ustr \<Rightarrow> ustr list" where
  "split_on sep [] = [[]]"
| "split_on sep (c # cs) =
     (if c = sep then [] # split_on sep cs
      else (case split_on sep cs of [] \<Rightarrow> [[c]] | h # t \<Rightarrow> (c # h) # t))"

definition score3_pattern :: regex where
  "score3_pattern =
     Group 1 (Seq (OneOf [ADigit]) (Seq (OneOf [ADigit]) (Plus (OneOf [ADigit]))))"

definition search_score :: "ustr \<Rightarrow> ustr option" where
  "search_score line =
     (case finditer score3_pattern line of [] \<Rightarrow> None | m # _ \<Rightarrow> Some (group m 1))"

definition text_record :: "ustr \<Rightarrow> ustr \<Rightarrow> ustr \<Rightarrow> int \<Rightarrow> ustr \<Rightarrow> ustr \<Rightarrow> admission_info" where
  "text_record school code batch year current_province score =
     \<lparr> ai_year = str_of_int year, ai_school = school,
       ai_985 = u ''1'', ai_211 = u ''1'', ai_dfc = u ''1'',
       ai_category = u ''NA'', ai_batch = batch, ai_major = u ''NA'',
       ai_min_score = score, ai_min_rank = u ''NA'', ai_code = code,
       ai_type = zh_tongzhao, ai_province = current_province \<rparr>"

fun text_lines ::
  "(ustr \<Rightarrow> ustr \<Rightarrow> admission_info) \<Rightarrow> ustr list \<Rightarrow> ustr option \<Rightarrow> admission_info list
   \<Rightarrow> admission_info list" where
  "text_lines mk [] current_province admission_list = admission_list"
| "text_lines mk (l # ls) current_province admission_list =
     (let line = py_strip l in
      if line = [] then text_lines mk ls current_province admission_list
      else
        (let found = List.find (\<lambda>province. py_in province line) text_provinces;
             current_province1 =
               (case found of None \<Rightarrow> current_province | Some province \<Rightarrow> Some province);
             admission_list1 =
               (case found of
                  None \<Rightarrow> admission_list
                | Some province \<Rightarrow>
                    (case search_score line of
                       None \<Rightarrow> admission_list
                     | Some score \<Rightarrow> admission_list @ [mk province score]));
             admission_list2 =
               (case current_province1 of
                  None \<Rightarrow> admission_list1
                | Some province \<Rightarrow>
                    (if province = [] then admission_list1
                     else
                       (case search_score line of
                          None \<Rightarrow> admission_list1
                        | Some score \<Rightarrow>
                            (if list_ex (\<lambda>item. ai_province item = province
                                                 \<and> ai_min_score item = score) admission_list1
                             then admission_list1
                             else admission_list1 @ [mk province score]))))
         in text_lines mk ls current_province1 admission_list2))"

definition tsinghua_parse_text_content :: "ustr \<Rightarrow> int \<Rightarrow> admission_info list" where
  "tsinghua_parse_text_content text year =
     text_lines (text_record zh_qinghua (u ''10003'') zh_putongpi year)
       (split_on 0x0A text) None []"

definition hust_parse_text_content :: "ustr \<Rightarrow> int \<Rightarrow> admission_info list" where
  "hust_parse_text_content text year =
     text_lines (text_record zh_huake (u ''10487'') zh_benkeyipi year)
       (split_on 0x0A text) None []"

subsection \<open>The Tsinghua page\<close>

text \<open>
  \<^verbatim>\<open>parse_score_page\<close> of the Tsinghua adapter, from the parsed page on: \<open>pg_content\<close> is
  the list of the paragraphs of the content area (\<^verbatim>\<open>div#vsb_content\<close>, else
  \<^verbatim>\<open>div.v_news_content\<close>), \<open>None\<close> when the page has none; \<open>pg_tables\<close> is the number
  of tables; \<open>pg_main\<close> is the text of the main content area
  (\<^verbatim>\<open>get_text(separator='\n', strip=True)\<close>), \<open>None\<close> when the page has none. The
  table parser of this adapter is not written: it returns the empty list.
\<close>

record html_page =
  pg_content :: "html_paragraph list option"
  pg_tables :: nat
  pg_main :: "ustr option"

definition tsinghua_parse_table_format :: "int \<Rightarrow> nat \<Rightarrow> admission_info list" where
  "tsinghua_parse_table_format year tables = []"

definition tsinghua_parse_score_page :: "html_page \<Rightarrow> int \<Rightarrow> admission_info list" where
  "tsinghua_parse_score_page page year =
     (case pg_content page of
        Some paragraphs \<Rightarrow> tsinghua_parse_paragraph_format paragraphs year
      | None \<Rightarrow>
          (if pg_tables page \<noteq> 0 then tsinghua_parse_table_format year (pg_tables page)
           else
             (case pg_main page of
                None \<Rightarrow> []
              | Some text \<Rightarrow>
                  (let text_data = tsinghua_parse_text_content text year
                   in if text_data \<noteq> [] then text_data else []))))"

section \<open>The PKU table adapter (pku\_crawler.py)\<close>

text \<open>
  The local \<^verbatim>\<open>clean_score\<close> of \<^verbatim>\<open>parse_score_page\<close>: \<open>None\<close> for an empty cell or a
  dash, else the first run of digits (\<^verbatim>\<open>re.search(r'(\d+)', ...)\<close>).
\<close>

definition pku_clean_score :: "ustr \<Rightarrow> ustr option" where
  "pku_clean_score score_str =
     (if score_str = [] \<or> score_str = u ''-'' \<or> score_str = zh_emdash then None
      else (case finditer (Group 1 (Plus (OneOf [ADigit]))) score_str of
              [] \<Rightarrow> None
            | m # _ \<Rightarrow> Some (group m 1)))"

definition pku_create_admission_info ::
  "int \<Rightarrow> ustr \<Rightarrow> ustr \<Rightarrow> ustr \<Rightarrow> ustr \<Rightarrow> ustr \<Rightarrow> admission_info option" where
  "pku_create_admission_info year province category score batch category_type =
     (if province = [] \<or> score = [] then None
      else Some \<lparr> ai_year = str_of_int year, ai_school = zh_beida,
                  ai_985 = u ''1'', ai_211 = u ''1'', ai_dfc = u ''1'',
                  ai_category = category_type, ai_batch = batch,
                  ai_major = (if category \<noteq> [] \<and> category \<notin> set [u ''-'', zh_emdash, []]
                              then category else u ''NA''),
                  ai_min_score = score, ai_min_rank = u ''NA'', ai_code = u ''10001'',
                  ai_type = zh_tongzhao, ai_province = province \<rparr>)"

text \<open>
  The records of one table row, from the cell texts the header has mapped to province,
  category and the three score columns.
\<close>

definition pku_score_record ::
  "int \<Rightarrow> ustr \<Rightarrow> ustr \<Rightarrow> ustr \<Rightarrow> ustr \<Rightarrow> admission_info list" where
  "pku_score_record year province category cell category_type =
     (case (if cell \<noteq> [] then pku_clean_score cell else None) of
        None \<Rightarrow> []
      | Some score \<Rightarrow>
          (if score = [] then []
           else (case pku_create_admission_info year province category score zh_benkeyipi
                        category_type of
                   None \<Rightarrow> [] | Some info \<Rightarrow> [info])))"

definition pku_row ::
  "int \<Rightarrow> ustr \<Rightarrow> ustr \<Rightarrow> ustr \<Rightarrow> ustr \<Rightarrow> ustr \<Rightarrow> admission_info list" where
  "pku_row year province0 category arts_score science_score other_score =
     (let province = remove_suffixes province0
      in pku_score_record year province category arts_score zh_wenshi
         @ pku_score_record year province category science_score zh_ligong
         @ pku_score_record year province category other_score zh_zonghegaige)"

section \<open>Sample data\<close>

text \<open>
  Rows of one admission file: Tsinghua (code 10003), category U+7406 U+5DE5 (ligong,
  science), source province U+5317 U+4EAC (Beijing), year 2024, no rank; \<open>row_b\<close>
  differs from \<open>row_a\<close> in the score. \<open>sample_rows\<close> repeats \<open>row_a\<close> twice, once with
  another category (not a key column), and has a row without score.
\<close>

definition row_a :: score_row where
  "row_a = \<lparr> COLLEGE_CODE = 10003, TYPE_col = [0x7406, 0x5DE5], MAJOR_NAME = u ''NA'',
             PROVINCE = [0x5317, 0x4EAC], ADMISSION_YEAR = Some 2024, MIN_SCORE = Some 680,
             MIN_RANK = None \<rparr>"

definition row_b :: score_row where
  "row_b = row_a \<lparr> MIN_SCORE := Some 650 \<rparr>"

definition sample_rows :: "score_row list" where
  "sample_rows = [row_a, row_b, row_a, row_a \<lparr> TYPE_col := [] \<rparr>, row_b \<lparr> MIN_SCORE := None \<rparr>]"

definition rows_with_key ::
  "int \<times> ustr \<times> int option \<times> ustr \<times> int option \<times> int option \<Rightarrow> score_row list \<Rightarrow> score_row list" where
  "rows_with_key k df = filter (\<lambda>x. dedup_cols x = k) df"

text \<open>A float parser that knows the text "650.75" only.\<close>

definition float_of_sample :: "ustr \<Rightarrow> rat option" where
  "float_of_sample s = (if s = u ''650.75'' then Some (2603 / 4) else None)"

text \<open>The text of the float 650.75 (the only one the samples print).\<close>

definition float_text_sample :: "rat \<Rightarrow> ustr" where
  "float_text_sample x = (if x = 2603 / 4 then u ''650.75'' else [])"

text \<open>
  An item of the Nankai API with a fractional score, its province U+6CB3 U+5317 U+7701
  (Hebei sheng, Hebei province).
\<close>

definition fractional_item :: jdict where
  "fractional_item =
     [u ''ssmc'' \<mapsto> JStr [0x6CB3, 0x5317, 0x7701], u ''minScore'' \<mapsto> JFloat (2603 / 4)]"

text \<open>
  Paragraphs. \<open>spec_paragraph\<close> is the paragraph of the specification's scenario:
  Beijing, full-width colon, "like 680 fen", full-width semicolon, "wenke 650 fen",
  full-width semicolon. \<open>ascii_paragraph\<close> is the same text with ASCII semicolons.
  \<open>title_paragraph\<close> is a batch title in lenticular brackets, "benke yipi luqu
  fenshuxian", inside a \<^verbatim>\<open>strong\<close> element. \<open>double_text\<close> is "Tianjin: 660 fen;
  Beijing: 680 fen" with a space before 680 (what \<^verbatim>\<open>get_text(separator=' ')\<close> gives
  when the score sits in an element of its own). \<open>twice_text\<close> names Beijing twice,
  "Beijing: 680 fen Beijing: NA 680 fen;".
\<close>

definition spec_paragraph :: ustr where
  "spec_paragraph = zh_beijing @ zh_colon @ zh_like @ u '' 680'' @ zh_fen @ zh_semicolon
                    @ zh_wenke @ u '' 650'' @ zh_fen @ zh_semicolon"

definition ascii_paragraph :: ustr where
  "ascii_paragraph = zh_beijing @ zh_colon @ zh_like @ u '' 680'' @ zh_fen @ u '';''
                     @ zh_wenke @ u '' 650'' @ zh_fen @ u '';''"

definition title_paragraph :: html_paragraph where
  "title_paragraph =
     \<lparr> p_text = zh_lbracket @ zh_benkeyipi @ zh_luqufenshuxian @ zh_rbracket,
       p_strong = Some (zh_lbracket @ zh_benkeyipi @ zh_luqufenshuxian @ zh_rbracket) \<rparr>"

definition plain :: "ustr \<Rightarrow> html_paragraph" where
  "plain t = \<lparr> p_text = t, p_strong = None \<rparr>"

definition double_text :: ustr where
  "double_text = zh_tianjin @ zh_colon @ u ''660'' @ zh_fen @ zh_semicolon
                 @ zh_beijing @ zh_colon @ u '' 680'' @ zh_fen"

definition twice_text :: ustr where
  "twice_text = zh_beijing @ zh_colon @ u ''680'' @ zh_fen @ u '' '' @ zh_beijing @ zh_colon
                @ u ''NA 680'' @ zh_fen @ u '';''"

definition province_score :: "admission_info \<Rightarrow> ustr \<times> ustr" where
  "province_score r = (ai_province r, ai_min_score r)"

definition summary :: "admission_info \<Rightarrow> ustr \<times> ustr \<times> ustr \<times> ustr" where
  "summary r = (ai_province r, ai_category r, ai_min_score r, ai_batch r)"

text \<open>The HUST record for Beijing, 680, first undergraduate batch, nothing else known.\<close>

definition hust_beijing_680 :: admission_info where
  "hust_beijing_680 =
     \<lparr> ai_year = u ''2024'', ai_school = zh_huake, ai_985 = u ''1'', ai_211 = u ''1'',
       ai_dfc = u ''1'', ai_category = u ''NA'', ai_batch = zh_benkeyipi, ai_major = u ''NA'',
       ai_min_score = u ''680'', ai_min_rank = u ''NA'', ai_code = u ''10487'',
       ai_type = zh_tongzhao, ai_province = zh_beijing \<rparr>"

section \<open>Properties of the data cleaner\<close>

lemma filter_nonempty_list_ex: "(filter P xs \<noteq> []) = list_ex P xs"
  by (induction xs) auto

lemma clean_score_PyStr:
  "clean_score (PyStr s) =
     Inr (PyStr (if s = [] then []
                 else if list_ex isdigit_chr s then filter isdigit_chr s else py_strip s))"
  by (simp add: clean_score_def Let_def filter_nonempty_list_ex)

lemma clean_ranking_PyStr:
  "clean_ranking (PyStr s) =
     Inr (PyStr (if s = [] then []
                 else if list_ex isdigit_chr s then filter isdigit_chr s else py_strip s))"
  by (simp add: clean_ranking_def Let_def filter_nonempty_list_ex)

lemma clean_score_examples:
  "clean_score (PyStr [0x36, 0x35, 0x30, 0x5206]) = Inr (PyStr (u ''650''))"
  "clean_score (PyStr []) = Inr (PyStr [])"
  "clean_score (PyStr (u ''NA'')) = Inr (PyStr (u ''NA''))"
  by code_simp+

text \<open>
  Claim C8. For a string \<open>s\<close>, \<^verbatim>\<open>clean_score\<close> returns the empty string when \<open>s\<close> is
  empty, the digit characters of \<open>s\<close> in order when \<open>s\<close> has a digit, and \<open>s\<close> without
  its surrounding whitespace otherwise; \<^verbatim>\<open>clean_ranking\<close> does the same, and \<^verbatim>\<open>None\<close>
  (falsy) gives the empty string. In particular "650" followed by U+5206 (fen, points)
  gives "650", the empty string gives the empty string, and "NA" gives "NA".
\<close>

theorem clean_score_spec:
  "clean_score (PyStr s) =
     Inr (PyStr (if s = [] then []
                 else if list_ex isdigit_chr s then filter isdigit_chr s else py_strip s))
   \<and> clean_ranking (PyStr s) = clean_score (PyStr s)
   \<and> clean_score PyNone = Inr (PyStr [])
   \<and> clean_ranking PyNone = Inr (PyStr [])
   \<and> clean_score (PyStr [0x36, 0x35, 0x30, 0x5206]) = Inr (PyStr (u ''650''))
   \<and> clean_score (PyStr []) = Inr (PyStr [])
   \<and> clean_score (PyStr (u ''NA'')) = Inr (PyStr (u ''NA''))"
  using clean_score_examples
  by (simp add: clean_score_PyStr clean_ranking_PyStr) (simp add: clean_score_def clean_ranking_def)

theorem clean_score_spec_witness:
  "clean_score (PyStr (u '' 6a5 0'')) = Inr (PyStr (u ''650''))
   \<and> clean_ranking (PyStr (u '' n/a '')) = Inr (PyStr (u ''n/a''))"
proof -
  have e1: "list_ex isdigit_chr (u '' 6a5 0'')" "filter isdigit_chr (u '' 6a5 0'') = u ''650''"
    by code_simp+
  have e2: "\<not> list_ex isdigit_chr (u '' n/a '')" "py_strip (u '' n/a '') = u ''n/a''"
    "u '' n/a '' \<noteq> []" "u '' 6a5 0'' \<noteq> []"
    by code_simp+
  show ?thesis
    using clean_score_spec [of "u '' 6a5 0''"] clean_score_spec [of "u '' n/a ''"] e1 e2
    by simp
qed

lemma validate_data_fst:
  "fst (validate_data d) =
     (truthy (dict_get d k_year) \<and> truthy (dict_get d k_school) \<and> truthy (dict_get d k_province)
      \<and> (case dict_get d k_year of PyStr y \<Rightarrow> length y = 4 \<and> list_all isdigit_chr y | _ \<Rightarrow> True))"
  by (auto simp: validate_data_def required_fields_def py_isdigit_def
      split: pyval.splits option.splits)

lemma validate_data_warns: "\<not> fst (validate_data d) \<Longrightarrow> snd (validate_data d) \<noteq> []"
  by (auto simp: validate_data_def split: pyval.splits option.splits if_splits)

lemma clean_data_loop_drop:
  "\<not> fst (validate_data d) \<Longrightarrow>
   clean_data_loop (d # ds) acc ws = clean_data_loop ds acc (ws @ snd (validate_data d))"
  by (cases "validate_data d") (auto split: bool.splits)

lemma ascii_digit_isdigit: "0x30 \<le> c \<Longrightarrow> c \<le> 0x39 \<Longrightarrow> isdigit_chr c"
  by (simp add: isdigit_chr_def in_ranges_def decimal_ranges_def)

lemma nat_digits_has_digit: "list_ex isdigit_chr (nat_digits n)"
proof (induction n rule: nat_digits.induct)
  case (1 n)
  have "isdigit_chr (0x30 + int (n mod 10))"
    by (rule ascii_digit_isdigit) auto
  moreover have "n < 10 \<Longrightarrow> isdigit_chr (0x30 + int n)"
    by (rule ascii_digit_isdigit) auto
  ultimately show ?case
    by (subst nat_digits.simps) (simp add: list_ex_iff)
qed

lemma clean_score_total: "\<exists>r. clean_score v = Inr r"
proof (cases v)
  case (PyInt n)
  have "list_ex isdigit_chr (str_of_int n)"
    using nat_digits_has_digit by (simp add: str_of_int_def list_ex_iff)
  then show ?thesis
    using PyInt by (simp add: clean_score_def Let_def filter_nonempty_list_ex)
qed (simp_all add: clean_score_def Let_def)

lemma clean_ranking_total: "\<exists>r. clean_ranking v = Inr r"
proof (cases v)
  case (PyInt n)
  have "list_ex isdigit_chr (str_of_int n)"
    using nat_digits_has_digit by (simp add: str_of_int_def list_ex_iff)
  then show ?thesis
    using PyInt by (simp add: clean_ranking_def Let_def filter_nonempty_list_ex)
qed (simp_all add: clean_ranking_def Let_def)

lemma clean_record_total: "\<exists>d'. clean_record d = Inr d'"
proof -
  obtain d1 where d1:
    "(case d k_min_score of
        None \<Rightarrow> Inr d
      | Some v \<Rightarrow> (case clean_score v of Inl e \<Rightarrow> Inl e
                    | Inr v' \<Rightarrow> Inr (d(k_min_score \<mapsto> v')))) = (Inr d1 :: py_error + pydict)"
    using clean_score_total by (cases "d k_min_score") (auto, metis sum.simps(6))
  obtain d2 where d2:
    "(case d1 k_min_rank of
        None \<Rightarrow> Inr d1
      | Some v \<Rightarrow> (case clean_ranking v of Inl e \<Rightarrow> Inl e
                    | Inr v' \<Rightarrow> Inr (d1(k_min_rank \<mapsto> v')))) = (Inr d2 :: py_error + pydict)"
    using clean_ranking_total by (cases "d1 k_min_rank") (auto, metis sum.simps(6))
  show ?thesis
    unfolding clean_record_def by (simp add: d1 d2)
qed

lemma clean_data_loop_total:
  "\<exists>out. fst (clean_data_loop ds acc ws) = Inr out \<and>
         length out = length acc + length (filter (\<lambda>d. fst (validate_data d)) ds)"
proof (induction ds arbitrary: acc ws)
  case Nil
  then show ?case by simp
next
  case (Cons d ds)
  obtain b w where v: "validate_data d = (b, w)" by (cases "validate_data d")
  obtain d' where c: "clean_record d = Inr d'" using clean_record_total by blast
  show ?case
  proof (cases b)
    case True
    then show ?thesis using Cons.IH [of "acc @ [d']" "ws @ w"] v c by simp
  next
    case False
    then show ?thesis using Cons.IH [of acc "ws @ w"] v by simp
  qed
qed

lemma validate_data_samples:
  "validate_data (rec_of_year (PyStr (u ''24''))) = (False, [BadYearFormat (u ''24'')])"
  "validate_data (rec_of_year (PyStr (u ''2024''))) = (True, [])"
  "validate_data (rec_of_year (PyInt 24)) = (True, [])"
  by code_simp+

text \<open>
  Claim C9. \<^verbatim>\<open>validate_data\<close> returns \<^verbatim>\<open>True\<close> exactly when the year, school and
  source-province fields are present and non-empty (truthy) and the year, when it is a
  string, has exactly four characters, all digits. A record whose year is the string
  "24" fails and one whose year is "2024" passes (the other two fields being non-empty).
  A record that fails is reported in a warning and skipped by \<^verbatim>\<open>clean_data\<close>, whose loop
  goes on with the remaining records; \<^verbatim>\<open>clean_data\<close> returns a list (it does not raise),
  with one cleaned record for each valid input record.
\<close>

theorem validate_data_spec:
  "fst (validate_data d) =
     (truthy (dict_get d k_year) \<and> truthy (dict_get d k_school) \<and> truthy (dict_get d k_province)
      \<and> (case dict_get d k_year of PyStr y \<Rightarrow> length y = 4 \<and> list_all isdigit_chr y | _ \<Rightarrow> True))
   \<and> (dict_get d k_year = PyStr (u ''24'') \<longrightarrow> \<not> fst (validate_data d))
   \<and> (dict_get d k_year = PyStr (u ''2024'') \<and> truthy (dict_get d k_school)
        \<and> truthy (dict_get d k_province) \<longrightarrow> fst (validate_data d))
   \<and> (\<not> fst (validate_data d) \<longrightarrow>
        snd (validate_data d) \<noteq> [] \<and>
        clean_data_loop (d # ds) acc ws = clean_data_loop ds acc (ws @ snd (validate_data d)))
   \<and> (\<exists>out. fst (clean_data ds) = Inr out \<and>
              length out = length (filter (\<lambda>d. fst (validate_data d)) ds))"
proof -
  have a: "list_all isdigit_chr (u ''2024'')" "length (u ''2024'') = 4" "length (u ''24'') = 2"
    "u ''2024'' \<noteq> []"
    by code_simp+
  have "dict_get d k_year = PyStr (u ''24'') \<longrightarrow> \<not> fst (validate_data d)"
    unfolding validate_data_fst using a by simp
  moreover have "dict_get d k_year = PyStr (u ''2024'') \<and> truthy (dict_get d k_school)
        \<and> truthy (dict_get d k_province) \<longrightarrow> fst (validate_data d)"
    unfolding validate_data_fst using a by simp
  moreover have "\<exists>out. fst (clean_data ds) = Inr out \<and>
              length out = length (filter (\<lambda>d. fst (validate_data d)) ds)"
    using clean_data_loop_total [of ds "[]" "[]"] by (simp add: clean_data_def)
  ultimately show ?thesis
    using validate_data_fst [of d] validate_data_warns [of d] clean_data_loop_drop [of d ds acc ws]
    by blast
qed

theorem validate_data_spec_witness:
  "\<not> fst (validate_data (rec_of_year (PyStr (u ''24''))))
   \<and> snd (validate_data (rec_of_year (PyStr (u ''24'')))) \<noteq> []
   \<and> fst (validate_data (rec_of_year (PyStr (u ''2024''))))
   \<and> clean_data_loop [rec_of_year (PyStr (u ''24'')), rec_of_year (PyStr (u ''2024''))] [] []
       = clean_data_loop [rec_of_year (PyStr (u ''2024''))] [] [BadYearFormat (u ''24'')]"
proof -
  have e: "dict_get (rec_of_year (PyStr (u ''24''))) k_year = PyStr (u ''24'')"
    "dict_get (rec_of_year (PyStr (u ''2024''))) k_year = PyStr (u ''2024'')"
    "truthy (dict_get (rec_of_year (PyStr (u ''2024''))) k_school)"
    "truthy (dict_get (rec_of_year (PyStr (u ''2024''))) k_province)"
    by code_simp+
  have s: "snd (validate_data (rec_of_year (PyStr (u ''24'')))) = [BadYearFormat (u ''24'')]"
    by (simp add: validate_data_samples)
  note t24 = validate_data_spec [of "rec_of_year (PyStr (u ''24''))"
      "[rec_of_year (PyStr (u ''2024''))]" "[]" "[]"]
  note t2024 = validate_data_spec [of "rec_of_year (PyStr (u ''2024''))" "[]" "[]" "[]"]
  have n24: "\<not> fst (validate_data (rec_of_year (PyStr (u ''24''))))"
    using t24 e by blast
  have w: "snd (validate_data (rec_of_year (PyStr (u ''24'')))) \<noteq> [] \<and>
      clean_data_loop (rec_of_year (PyStr (u ''24'')) # [rec_of_year (PyStr (u ''2024''))]) [] []
        = clean_data_loop [rec_of_year (PyStr (u ''2024''))] []
            ([] @ snd (validate_data (rec_of_year (PyStr (u ''24'')))))"
    using t24 n24 by blast
  have p: "fst (validate_data (rec_of_year (PyStr (u ''2024''))))"
    using t2024 e by blast
  show ?thesis
    using n24 w p unfolding s by (simp del: clean_data_loop.simps)
qed

text \<open>
  Claim C10. When the year is present and truthy but not a string (the integer 24, say),
  \<^verbatim>\<open>validate_data\<close> makes no check of its format: it returns \<^verbatim>\<open>True\<close>, with no warning,
  whenever school and source province are non-empty too.
\<close>

theorem validate_data_non_string_year:
  assumes "dict_get d k_year = y" and "truthy y" and "\<forall>s. y \<noteq> PyStr s"
    and "truthy (dict_get d k_school)" and "truthy (dict_get d k_province)"
  shows "validate_data d = (True, [])"
  using assms
  by (cases y) (auto simp: validate_data_def required_fields_def)

theorem validate_data_non_string_year_witness:
  "dict_get (rec_of_year (PyInt 24)) k_year = PyInt 24 \<and> truthy (PyInt 24)
   \<and> truthy (dict_get (rec_of_year (PyInt 24)) k_school)
   \<and> truthy (dict_get (rec_of_year (PyInt 24)) k_province)
   \<and> validate_data (rec_of_year (PyInt 24)) = (True, [])"
proof -
  have a: "dict_get (rec_of_year (PyInt 24)) k_year = PyInt 24" by code_simp
  have b: "truthy (PyInt 24)" by simp
  have c: "\<forall>s. PyInt 24 \<noteq> PyStr s" by simp
  have d: "truthy (dict_get (rec_of_year (PyInt 24)) k_school)" by code_simp
  have e: "truthy (dict_get (rec_of_year (PyInt 24)) k_province)" by code_simp
  show ?thesis
    using validate_data_non_string_year [OF a b c d e] a b d e by simp
qed

section \<open>Properties of the loader\<close>

lemma translate_chr_not_fullwidth: "translate_chr c \<noteq> 0xFF08 \<and> translate_chr c \<noteq> 0xFF09"
  by (simp add: translate_chr_def)

lemma sanitize_text_no_fullwidth:
  assumes "sanitize_text v None = Some s"
  shows "0xFF08 \<notin> set s \<and> 0xFF09 \<notin> set s"
proof -
  obtain t where "s = map translate_chr t"
    using assms by (auto simp: sanitize_text_def Let_def split: option.splits if_splits)
  then show ?thesis
    using translate_chr_not_fullwidth by auto
qed

lemma count_list_0: "c \<notin> set xs \<Longrightarrow> count_list xs c = 0"
  by (induction xs) auto

lemma set_rstrip_chars: "set (py_rstrip_chars cs s) \<subseteq> set s"
  unfolding py_rstrip_chars_def using set_dropWhileD by fastforce

lemma set_rstrip: "set (py_rstrip s) \<subseteq> set s"
  unfolding py_rstrip_def using set_dropWhileD by fastforce

lemma length_rstrip_chars: "length (py_rstrip_chars cs s) \<le> length s"
  unfolding py_rstrip_chars_def using length_dropWhile_le [of _ "rev s"] by simp

lemma length_rstrip: "length (py_rstrip s) \<le> length s"
  unfolding py_rstrip_def using length_dropWhile_le [of _ "rev s"] by simp

text \<open>
  What \<^verbatim>\<open>smart_shorten_major_name\<close> computes: the sanitized string has no full-width
  parenthesis left, so both counts are zero and no closing marker is ever appended.
\<close>

lemma smart_shorten_closed_form:
  "smart_shorten_major_name v m =
     (case sanitize_text v None of
        None \<Rightarrow> None
      | Some s \<Rightarrow>
          if length s \<le> m then Some s
          else (case py_rfind 0x3001 (take m s) of
                  Some cut_pos \<Rightarrow>
                    Some (py_rstrip_chars [0x3001, 0xFF0C, 0x2C, 0xFF1B, 0x3B, 0x20]
                            (take cut_pos (take m s)))
                | None \<Rightarrow> Some (py_rstrip (take m s))))"
proof (cases "sanitize_text v None")
  case None
  then show ?thesis by (simp add: smart_shorten_major_name_def)
next
  case (Some s)
  then have nf: "0xFF08 \<notin> set s" using sanitize_text_no_fullwidth by blast
  have a: "count_list (py_rstrip (take m s)) 0xFF08 = 0"
    using nf set_rstrip [of "take m s"] set_take_subset [of m s] by (intro count_list_0) blast
  have b: "count_list (py_rstrip_chars cs (take k (take m s))) 0xFF08 = 0" for cs k
    using nf set_rstrip_chars [of cs "take k (take m s)"] set_take_subset [of k "take m s"]
      set_take_subset [of m s] by (intro count_list_0) blast
  have c: "count_list (py_rstrip_chars cs (take (min k m) s)) 0xFF08 = 0" for cs k
    using b [of cs k] by simp
  show ?thesis
    using Some by (simp add: smart_shorten_major_name_def Let_def a c split: option.splits)
qed

lemma smart_shorten_length:
  assumes "smart_shorten_major_name v m = Some r"
  shows "length r \<le> m"
proof -
  have "length (py_rstrip (take m s)) \<le> m" for s
    using length_rstrip [of "take m s"] by simp
  moreover have "length (py_rstrip_chars cs (take k (take m s))) \<le> m" for cs k s
    using length_rstrip_chars [of cs "take k (take m s)"] by simp
  ultimately show ?thesis
    using assms unfolding smart_shorten_closed_form
    by (auto split: option.splits if_splits)
qed

text \<open>
  Claim C3. The claim has the closing marker U+7B49 U+FF09 appended whenever the cut
  leaves an opening parenthesis unbalanced. On \<open>long_major\<close> (301 characters, one opening
  full-width parenthesis that is never closed) the function cuts at the last separator
  before character 224 and returns the 222 characters before it, the parenthesis still
  open and no marker appended.
\<close>

theorem smart_shorten_no_marker:
  "smart_shorten_major_name (Some long_major) MAX_LEN_MAJOR_NAME
     = Some (0x28 # concat (replicate 110 [0x7532, 0x3001]) @ [0x7532])"
  by code_simp

lemma ddf_keys:
  "key ` set (drop_duplicates_from seen key rs) = key ` set rs - set seen"
  by (induction rs arbitrary: seen) auto

lemma ddf_distinct: "distinct (map key (drop_duplicates_from seen key rs))"
proof (induction rs arbitrary: seen)
  case Nil
  then show ?case by simp
next
  case (Cons r rs)
  have "key r \<notin> key ` set (drop_duplicates_from (key r # seen) key rs)"
    unfolding ddf_keys by simp
  then show ?case using Cons.IH by simp
qed

lemma ddf_subset: "set (drop_duplicates_from seen key rs) \<subseteq> set rs"
  by (induction rs arbitrary: seen) auto

lemma distinct_key_count:
  "distinct (map key xs) \<Longrightarrow> k \<in> set (map key xs) \<Longrightarrow>
   length (filter (\<lambda>x. key x = k) xs) = 1"
proof (induction xs)
  case Nil
  then show ?case by simp
next
  case (Cons x xs)
  show ?case
  proof (cases "key x = k")
    case True
    then have "k \<notin> key ` set xs" using Cons.prems(1) by auto
    then have "filter (\<lambda>x. key x = k) xs = []" by (auto simp: filter_empty_conv)
    then show ?thesis using True by simp
  next
    case False
    then show ?thesis using Cons by auto
  qed
qed

lemma drop_duplicates_one:
  "r \<in> set df \<Longrightarrow> length (filter (\<lambda>x. key x = key r) (drop_duplicates key df)) = 1"
  unfolding drop_duplicates_def
  by (rule distinct_key_count [OF ddf_distinct]) (simp add: ddf_keys)

text \<open>
  Claim C4. After the rows without year or score have been dropped, deduplication on the
  key (admission code, PROVINCE, ADMISSION\_YEAR, MAJOR\_NAME, MIN\_SCORE, MIN\_RANK) leaves
  rows of the input with pairwise distinct keys, and for every row that entered the
  deduplication exactly one row with its key.
\<close>

theorem loader_dedup_one_per_key:
  "distinct (map dedup_cols (loader_dedup df))
   \<and> set (loader_dedup df) \<subseteq> set df
   \<and> (\<forall>r \<in> set (dropna df). length (rows_with_key (dedup_cols r) (loader_dedup df)) = 1)"
proof -
  have "set (loader_dedup df) \<subseteq> set df"
    using ddf_subset [of "[]" dedup_cols "dropna df"]
    by (auto simp: loader_dedup_def drop_duplicates_def dropna_def)
  then show ?thesis
    using drop_duplicates_one [of _ "dropna df" dedup_cols]
    by (simp add: loader_dedup_def drop_duplicates_def ddf_distinct rows_with_key_def)
qed

theorem loader_dedup_one_per_key_witness:
  "row_a \<in> set (dropna sample_rows)
   \<and> length (rows_with_key (dedup_cols row_a) sample_rows) = 3
   \<and> length (rows_with_key (dedup_cols row_a) (loader_dedup sample_rows)) = 1"
proof -
  have m: "row_a \<in> set (dropna sample_rows)" by code_simp
  have n: "length (rows_with_key (dedup_cols row_a) sample_rows) = 3" by code_simp
  show ?thesis
    using loader_dedup_one_per_key [of sample_rows] m n by blast
qed






section \<open>Properties of the Nankai adapter\<close>

lemma session_post_sent: "sent (snd (session_post tok st)) = sent st @ [tok]"
  by (auto simp: session_post_def split: list.splits outcome.splits)

text \<open>\<^verbatim>\<open>get_filter_params\<close> sends one request, whatever the server answers.\<close>

lemma get_filter_params_single_post:
  "length (sent (snd (get_filter_params st))) = Suc (length (sent st))"
proof -
  obtain r st1 where p:
    "session_post (if tok_truthy (csrf_token st) then csrf_token st else None) st = (r, st1)"
    by (cases "session_post (if tok_truthy (csrf_token st) then csrf_token st else None) st")
  have s: "sent st1 = sent st @ [if tok_truthy (csrf_token st) then csrf_token st else None]"
    using session_post_sent [of "if tok_truthy (csrf_token st) then csrf_token st else None" st] p
    by simp
  show ?thesis
    unfolding get_filter_params_def get_filter_params_try_def
    using p s by (cases r) (auto simp: Let_def split: sum.splits prod.splits)
qed

text \<open>
  \<^verbatim>\<open>get_admission_data\<close> sends a second request exactly when the first reply has status
  403 and carries a token, and a second error status gives \<^verbatim>\<open>None\<close>.
\<close>

lemma get_admission_data_posts:
  "length (sent (snd (get_admission_data st))) =
     (case pending st of
        Reply r # _ \<Rightarrow> if status_code r = 403 \<and> tok_truthy (header_token r)
                        then length (sent st) + 2 else length (sent st) + 1
      | _ \<Rightarrow> length (sent st) + 1)"
  unfolding get_admission_data_def get_admission_data_try_def
  by (auto simp: session_post_def Let_def
      split: list.splits outcome.splits sum.splits prod.splits)

lemma get_admission_data_second_failure:
  assumes "pending st = Reply r1 # Reply r2 # rest"
    and "status_code r1 = 403" and "tok_truthy (header_token r1)"
    and "400 \<le> status_code r2" and "status_code r2 < 600"
  shows "fst (get_admission_data st) = None"
  using assms unfolding get_admission_data_def get_admission_data_try_def
  by (auto simp: session_post_def Let_def finish_request_def
      split: list.splits outcome.splits sum.splits prod.splits)

text \<open>
  Claim C5. The claim has both request functions retry once, with the fresh token, after
  a 403 reply. On the server \<open>expired\<close> (403 with a fresh token, then success)
  \<^verbatim>\<open>get_filter_params\<close> stores the fresh token, sends nothing more and returns
  \<^verbatim>\<open>None\<close>, the accepting reply left unread; \<^verbatim>\<open>get_admission_data\<close> retries once with
  the fresh token and returns the data, and returns \<^verbatim>\<open>None\<close> when the retry is refused
  as well.
\<close>

theorem get_filter_params_no_retry:
  "get_filter_params expired =
     (None, \<lparr> csrf_token = Some (u ''fresh''), pending = [Reply accepted],
              sent = [Some (u ''stale'')] \<rparr>)
   \<and> get_admission_data expired =
     (Some (Payload (u ''scores'')),
      \<lparr> csrf_token = Some (u ''fresh''), pending = [],
        sent = [Some (u ''stale''), Some (u ''fresh'')] \<rparr>)
   \<and> get_admission_data expired_twice =
     (None, \<lparr> csrf_token = Some (u ''fresh''), pending = [],
              sent = [Some (u ''stale''), Some (u ''fresh'')] \<rparr>)"
  by code_simp


section \<open>Properties of the regular expressions\<close>

text \<open>
  The bound of the repetition loops is never what ends them: any two bounds that are at
  least the length of the text give the same result.
\<close>

lemma star_greedy_fuel:
  "length (fst s) \<le> n \<Longrightarrow> length (fst s) \<le> m \<Longrightarrow>
   star_greedy step n s = star_greedy step m s"
proof (induction n arbitrary: m s)
  case 0
  then have e: "filter (\<lambda>s'. length (fst s') < length (fst s)) (step s) = []" by simp
  show ?case by (cases m) (simp_all add: e)
next
  case (Suc n)
  show ?case
  proof (cases m)
    case 0
    then have e: "filter (\<lambda>s'. length (fst s') < length (fst s)) (step s) = []"
      using Suc.prems by simp
    show ?thesis using 0 by (simp add: e)
  next
    case (Suc m')
    have "star_greedy step n s' = star_greedy step m' s'"
      if "s' \<in> set (filter (\<lambda>s'. length (fst s') < length (fst s)) (step s))" for s'
      using that Suc.prems Suc by (intro Suc.IH) auto
    then have eq: "map (star_greedy step n) (filter (\<lambda>s'. length (fst s') < length (fst s)) (step s))
        = map (star_greedy step m') (filter (\<lambda>s'. length (fst s') < length (fst s)) (step s))"
      by (rule map_cong [OF refl])
    show ?thesis unfolding Suc by (simp only: star_greedy.simps eq)
  qed
qed

lemma star_lazy_fuel:
  "length (fst s) \<le> n \<Longrightarrow> length (fst s) \<le> m \<Longrightarrow>
   star_lazy step n s = star_lazy step m s"
proof (induction n arbitrary: m s)
  case 0
  then have e: "filter (\<lambda>s'. length (fst s') < length (fst s)) (step s) = []" by simp
  show ?case by (cases m) (simp_all add: e)
next
  case (Suc n)
  show ?case
  proof (cases m)
    case 0
    then have e: "filter (\<lambda>s'. length (fst s') < length (fst s)) (step s) = []"
      using Suc.prems by simp
    show ?thesis using 0 by (simp add: e)
  next
    case (Suc m')
    have "star_lazy step n s' = star_lazy step m' s'"
      if "s' \<in> set (filter (\<lambda>s'. length (fst s') < length (fst s)) (step s))" for s'
      using that Suc.prems Suc by (intro Suc.IH) auto
    then have eq: "map (star_lazy step n) (filter (\<lambda>s'. length (fst s') < length (fst s)) (step s))
        = map (star_lazy step m') (filter (\<lambda>s'. length (fst s') < length (fst s)) (step s))"
      by (rule map_cong [OF refl])
    show ?thesis unfolding Suc by (simp only: star_lazy.simps eq)
  qed
qed

text \<open>A match never ends with more text left than it started with.\<close>

lemma star_greedy_length:
  "s' \<in> set (star_greedy step n s) \<Longrightarrow> length (fst s') \<le> length (fst s)"
proof (induction n arbitrary: s s')
  case 0
  then show ?case by simp
next
  case (Suc n)
  from Suc.prems consider "s' = s"
    | t where "t \<in> set (step s)" "length (fst t) < length (fst s)"
        "s' \<in> set (star_greedy step n t)"
    by auto
  then show ?case
  proof cases
    case 1
    then show ?thesis by simp
  next
    case 2
    then show ?thesis using Suc.IH [of s' t] by simp
  qed
qed

lemma star_lazy_length:
  "s' \<in> set (star_lazy step n s) \<Longrightarrow> length (fst s') \<le> length (fst s)"
proof (induction n arbitrary: s s')
  case 0
  then show ?case by simp
next
  case (Suc n)
  from Suc.prems consider "s' = s"
    | t where "t \<in> set (step s)" "length (fst t) < length (fst s)"
        "s' \<in> set (star_lazy step n t)"
    by auto
  then show ?case
  proof cases
    case 1
    then show ?thesis by simp
  next
    case 2
    then show ?thesis using Suc.IH [of s' t] by simp
  qed
qed

lemma matches_length:
  "s' \<in> set (matches r s) \<Longrightarrow> length (fst s') \<le> length (fst s)"
proof (induction r arbitrary: s s')
  case (OneOf x)
  then show ?case by (cases "fst s") (auto split: if_splits)
next
  case (NoneOf x)
  then show ?case by (cases "fst s") (auto split: if_splits)
next
  case Eps
  then show ?case by simp
next
  case (Seq r1 r2)
  then obtain t where "t \<in> set (matches r1 s)" "s' \<in> set (matches r2 t)" by auto
  then show ?case using Seq.IH(1) [of t s] Seq.IH(2) [of s' t] by simp
next
  case (Alt r1 r2)
  then have "s' \<in> set (matches r1 s) \<or> s' \<in> set (matches r2 s)" by simp
  then show ?case using Alt.IH(1) [of s' s] Alt.IH(2) [of s' s] by blast
next
  case (Opt r)
  then have "s' \<in> set (matches r s) \<or> s' = s" by auto
  then show ?case using Opt.IH [of s' s] by auto
next
  case (Star r)
  then show ?case using star_greedy_length by simp
next
  case (Plus r)
  then obtain t where "t \<in> set (matches r s)"
    "s' \<in> set (star_greedy (matches r) (length (fst s)) t)" by auto
  then show ?case using Plus.IH [of t s] star_greedy_length [of s' "matches r" _ t] by force
next
  case (PlusLazy r)
  then obtain t where "t \<in> set (matches r s)"
    "s' \<in> set (star_lazy (matches r) (length (fst s)) t)" by auto
  then show ?case using PlusLazy.IH [of t s] star_lazy_length [of s' "matches r" _ t] by force
next
  case (Group n r)
  then obtain t where "t \<in> set (matches r s)" "fst s' = fst t" by auto
  then show ?case using Group.IH [of t s] by simp
next
  case (Ahead r)
  then have "fst s' = fst s" by (cases "matches r s") auto
  then show ?case by simp
next
  case Eos
  then have "s' = s" by (cases "fst s = [] \<or> fst s = [0x0A]") auto
  then show ?case by simp
qed

text \<open>
  A pattern sets only the groups that occur in it. So when a pattern starts with group 1
  over an alternation of literals and group 1 occurs nowhere else in it, the group 1 of
  every match that \<^verbatim>\<open>finditer\<close> gives is one of the literals.
\<close>

lemma star_greedy_keeps:
  assumes "\<And>s s'. s' \<in> set (step s) \<Longrightarrow> map_of (snd s') k = map_of (snd s) k"
  shows "s' \<in> set (star_greedy step n s) \<Longrightarrow> map_of (snd s') k = map_of (snd s) k"
proof (induction n arbitrary: s s')
  case 0
  then show ?case by simp
next
  case (Suc n)
  from Suc.prems consider "s' = s"
    | t where "t \<in> set (step s)" "s' \<in> set (star_greedy step n t)"
    by auto
  then show ?case
  proof cases
    case 1
    then show ?thesis by simp
  next
    case 2
    then show ?thesis using Suc.IH [of s' t] assms [of t s] by simp
  qed
qed

lemma star_lazy_keeps:
  assumes "\<And>s s'. s' \<in> set (step s) \<Longrightarrow> map_of (snd s') k = map_of (snd s) k"
  shows "s' \<in> set (star_lazy step n s) \<Longrightarrow> map_of (snd s') k = map_of (snd s) k"
proof (induction n arbitrary: s s')
  case 0
  then show ?case by simp
next
  case (Suc n)
  from Suc.prems consider "s' = s"
    | t where "t \<in> set (step s)" "s' \<in> set (star_lazy step n t)"
    by auto
  then show ?case
  proof cases
    case 1
    then show ?thesis by simp
  next
    case 2
    then show ?thesis using Suc.IH [of s' t] assms [of t s] by simp
  qed
qed

lemma matches_keeps:
  "k \<notin> groups_of r \<Longrightarrow> s' \<in> set (matches r s) \<Longrightarrow> map_of (snd s') k = map_of (snd s) k"
proof (induction r arbitrary: s s')
  case (OneOf x)
  then show ?case by (cases "fst s") (auto split: if_splits)
next
  case (NoneOf x)
  then show ?case by (cases "fst s") (auto split: if_splits)
next
  case Eps
  then show ?case by simp
next
  case (Seq r1 r2)
  then obtain t where "t \<in> set (matches r1 s)" "s' \<in> set (matches r2 t)" by auto
  then show ?case using Seq.IH(1) [of t s] Seq.IH(2) [of s' t] Seq.prems(1) by simp
next
  case (Alt r1 r2)
  then have "s' \<in> set (matches r1 s) \<or> s' \<in> set (matches r2 s)" by simp
  then show ?case using Alt.IH(1) [of s' s] Alt.IH(2) [of s' s] Alt.prems(1) by auto
next
  case (Opt r)
  then have "s' \<in> set (matches r s) \<or> s' = s" by auto
  then show ?case using Opt.IH [of s' s] Opt.prems(1) by auto
next
  case (Star r)
  have "s' \<in> set (star_greedy (matches r) (length (fst s)) s)" using Star.prems(2) by simp
  then show ?case
    using star_greedy_keeps [of "matches r" k s'] Star.IH Star.prems(1) by simp
next
  case (Plus r)
  then obtain t where t: "t \<in> set (matches r s)"
    "s' \<in> set (star_greedy (matches r) (length (fst s)) t)" by auto
  have "map_of (snd s') k = map_of (snd t) k"
    using star_greedy_keeps [of "matches r" k s' _ t] t(2) Plus.IH Plus.prems(1) by simp
  then show ?case using Plus.IH [of t s] t(1) Plus.prems(1) by simp
next
  case (PlusLazy r)
  then obtain t where t: "t \<in> set (matches r s)"
    "s' \<in> set (star_lazy (matches r) (length (fst s)) t)" by auto
  have "map_of (snd s') k = map_of (snd t) k"
    using star_lazy_keeps [of "matches r" k s' _ t] t(2) PlusLazy.IH PlusLazy.prems(1) by simp
  then show ?case using PlusLazy.IH [of t s] t(1) PlusLazy.prems(1) by simp
next
  case (Group n r)
  then obtain t where t: "t \<in> set (matches r s)" "snd s' = (n, take (length (fst s) - length (fst t)) (fst s)) # snd t"
    by auto
  have "n \<noteq> k" using Group.prems(1) by auto
  then show ?case using Group.IH [of t s] t Group.prems(1) by simp
next
  case (Ahead r)
  then obtain t where "t \<in> set (matches r s)" "snd s' = snd t"
    by (cases "matches r s") auto
  then show ?case using Ahead.IH [of t s] Ahead.prems(1) by simp
next
  case Eos
  then have "s' = s" by (cases "fst s = [] \<or> fst s = [0x0A]") auto
  then show ?case by simp
qed

lemma matches_lit:
  "s' \<in> set (matches (lit p) s) \<Longrightarrow> fst s = p @ fst s' \<and> snd s' = snd s"
proof (induction p arbitrary: s)
  case Nil
  then show ?case by (simp add: lit_def)
next
  case (Cons c p)
  have l: "lit (c # p) = Seq (OneOf [AChr c]) (lit p)" by (simp add: lit_def)
  from Cons.prems obtain t where t: "t \<in> set (matches (OneOf [AChr c]) s)"
    "s' \<in> set (matches (lit p) t)" unfolding l by auto
  have "fst s = c # fst t \<and> snd t = snd s"
    using t(1) by (cases "fst s") (auto split: if_splits)
  then show ?case using Cons.IH [OF t(2)] by simp
qed

lemma matches_alts_lit:
  "s' \<in> set (matches (alts (map lit ps)) s) \<Longrightarrow>
   \<exists>p \<in> set ps. fst s = p @ fst s' \<and> snd s' = snd s"
proof (induction ps)
  case Nil
  then show ?case by (cases "fst s") (simp_all add: alts_def)
next
  case (Cons p ps)
  have a: "alts (map lit (p # ps)) = Alt (lit p) (alts (map lit ps))" by (simp add: alts_def)
  from Cons.prems have "s' \<in> set (matches (lit p) s) \<or> s' \<in> set (matches (alts (map lit ps)) s)"
    unfolding a by simp
  then show ?case using matches_lit [of s' p s] Cons.IH by auto
qed

lemma groups_of_lit: "groups_of (lit p) = {}"
  by (induction p) (simp_all add: lit_def)

lemma groups_of_alts_lit: "groups_of (alts (map lit ps)) = {}"
  by (induction ps) (simp_all add: alts_def groups_of_lit)

text \<open>A pattern that starts with group 1 around a choice of literals binds group 1 to one of them.\<close>

lemma matches_group1:
  assumes "s' \<in> set (matches (Seq (Group 1 (alts (map lit ps))) rest) (t, []))"
    and "1 \<notin> groups_of rest"
  shows "group (c0 # snd s') 1 \<in> set ps \<or> fst c0 = 1"
proof -
  from assms(1) obtain s1 where s1: "s1 \<in> set (matches (Group 1 (alts (map lit ps))) (t, []))"
    "s' \<in> set (matches rest s1)" by auto
  from s1(1) obtain s0 where s0: "s0 \<in> set (matches (alts (map lit ps)) (t, []))"
    "snd s1 = (1, take (length t - length (fst s0)) t) # snd s0" by auto
  from matches_alts_lit [OF s0(1)] obtain p where p: "p \<in> set ps" "t = p @ fst s0" "snd s0 = []"
    by auto
  have "take (length t - length (fst s0)) t = p" using p(2) by (metis add_diff_cancel_right' append_eq_conv_conj length_append)
  then have "map_of (snd s1) 1 = Some p" using s0(2) by simp
  then have "map_of (snd s') 1 = Some p" using matches_keeps [OF assms(2) s1(2)] by simp
  then show ?thesis using p(1) by (cases c0) (auto simp: group_def)
qed

lemma scan_hit:
  "Hit m \<in> set (scan r k t) \<Longrightarrow>
   \<exists>suf s' mt. s' \<in> set (matches r (suf, [])) \<and> m = (0, mt) # snd s'"
proof (induction r k t rule: scan.induct)
  case (1 r k)
  show ?case
  proof (cases "matches r ([], [])")
    case Nil
    then have "scan r k [] = []" by simp
    then have False using "1.prems" by simp
    then show ?thesis ..
  next
    case (Cons s' rest)
    have "k = 0" using "1.prems" by (cases "k = 0") simp_all
    then have "scan r k [] = [Hit ((0, []) # snd s')]" using Cons by simp
    then have "m = (0, []) # snd s'" using "1.prems" by simp
    moreover have "s' \<in> set (matches r ([], []))" using Cons by simp
    ultimately show ?thesis by blast
  qed
next
  case (2 r k c cs)
  from "2.prems" have "Hit m \<in> set (scan r k cs)" by simp
  then show ?case by (rule "2.IH")
next
  case (3 r c cs)
  show ?case
  proof (cases "matches r (c # cs, [])")
    case Nil
    then have "scan r 0 (c # cs) = Plain c # scan r 0 cs" by simp
    then have "Hit m \<in> set (scan r 0 cs)" using "3.prems" by simp
    then show ?thesis by (rule "3.IH"(1) [OF Nil])
  next
    case (Cons s' rest)
    then have in_m: "s' \<in> set (matches r (c # cs, []))" by simp
    define n where "n = length (c # cs) - length (fst s')"
    show ?thesis
    proof (cases "n = 0")
      case True
      then have "Hit m = Hit ((0, []) # snd s') \<or> Hit m \<in> set (scan r 0 cs)"
        using "3.prems" Cons unfolding n_def by (auto simp: Let_def)
      moreover have "Hit m \<in> set (scan r 0 cs) \<Longrightarrow>
          \<exists>suf s' mt. s' \<in> set (matches r (suf, [])) \<and> m = (0, mt) # snd s'"
        using "3.IH"(2) [OF Cons refl] True unfolding n_def by blast
      ultimately show ?thesis using in_m by blast
    next
      case False
      then have "Hit m = Hit ((0, take n (c # cs)) # snd s') \<or> Hit m \<in> set (scan r (n - 1) cs)"
        using "3.prems" Cons unfolding n_def by (auto simp: Let_def)
      moreover have "Hit m \<in> set (scan r (n - 1) cs) \<Longrightarrow>
          \<exists>suf s' mt. s' \<in> set (matches r (suf, [])) \<and> m = (0, mt) # snd s'"
        using "3.IH"(3) [OF Cons refl] False unfolding n_def by blast
      ultimately show ?thesis using in_m by blast
    qed
  qed
qed

lemma groups_of_alts: "groups_of (alts rs) = (\<Union>r \<in> set rs. groups_of r)"
  by (induction rs) (simp_all add: alts_def)

lemma finditer_hit:
  "m \<in> set (finditer r t) \<Longrightarrow>
   \<exists>suf s' mt. s' \<in> set (matches r (suf, [])) \<and> m = (0, mt) # snd s'"
proof -
  assume "m \<in> set (finditer r t)"
  then have "Hit m \<in> set (scan r 0 t)"
    unfolding finditer_def by (auto split: piece.splits)
  then show ?thesis by (rule scan_hit)
qed

lemma finditer_group1:
  assumes "m \<in> set (finditer (Seq (Group 1 (alts (map lit ps))) rest) t)"
    and "1 \<notin> groups_of rest"
  shows "group m 1 \<in> set ps"
proof -
  from finditer_hit [OF assms(1)] obtain suf s' mt
    where h: "s' \<in> set (matches (Seq (Group 1 (alts (map lit ps))) rest) (suf, []))"
      "m = (0, mt) # snd s'" by blast
  show ?thesis
    using matches_group1 [OF h(1) assms(2), of "(0, mt)"] h(2) by simp
qed

section \<open>Properties of the HTML adapters\<close>

text \<open>
  With ASCII semicolons the paragraph of the scenario gives the two records the
  specification describes, under the batch of the last title.
\<close>

lemma tsinghua_ascii_paragraph:
  "map summary (tsinghua_parse_paragraph_format [title_paragraph, plain ascii_paragraph] 2024)
     = [(zh_beijing, zh_ligong, u ''680'', zh_benkeyipi),
        (zh_beijing, zh_wenshi, u ''650'', zh_benkeyipi)]"
  by code_simp

text \<open>
  Claim C1. The claim has the Tsinghua paragraph parser yield two records for the
  paragraph of the scenario. With the full-width semicolons of the scenario neither
  pattern matches: group 2 of pattern 1 may not contain a full-width semicolon and must
  reach the next province or the end of the text, and pattern 2 wants the digits right
  behind the colon. The parser returns no record, with or without a batch title before
  the paragraph.
\<close>

theorem tsinghua_scenario_no_records:
  "tsinghua_parse_paragraph_format [title_paragraph, plain spec_paragraph] 2024 = []
   \<and> tsinghua_parse_paragraph_format [plain spec_paragraph] 2024 = []
   \<and> format1_matches spec_paragraph = []
   \<and> finditer province_score_pattern spec_paragraph = []"
  by code_simp

lemma tsinghua_format1_empty:
  "format1_matches (sub_group1 decimal_pattern t) = [] \<Longrightarrow>
   format1_items (tsinghua_paragraph year b h t) = []
   \<and> format1_records (tsinghua_paragraph year b h t) = []"
  unfolding tsinghua_paragraph_def Let_def
  by (simp add: List.map_filter_simps)

lemma tsinghua_applied:
  "format2_applied (tsinghua_paragraph year b h t)
     = (format1_matches (sub_group1 decimal_pattern t) = [])"
  unfolding tsinghua_paragraph_def Let_def by simp

text \<open>
  In the Tsinghua adapter pattern 2 is applied only to a paragraph in which pattern 1
  found nothing, and gives no record otherwise.
\<close>

lemma tsinghua_exclusive:
  "format2_applied (tsinghua_paragraph year b h t) \<longrightarrow>
     format1_items (tsinghua_paragraph year b h t) = []
     \<and> format1_records (tsinghua_paragraph year b h t) = []"
  using tsinghua_format1_empty [of t year b h] tsinghua_applied [of year b h t] by blast

lemma tsinghua_not_applied:
  "\<not> format2_applied (tsinghua_paragraph year b h t) \<Longrightarrow>
   format2_records (tsinghua_paragraph year b h t) = []"
  unfolding tsinghua_paragraph_def Let_def by simp

lemma hust_applied: "format2_applied (hust_paragraph year b t)"
  unfolding hust_paragraph_def Let_def by simp

text \<open>
  Claim C2. The claim has pattern 2 applied only when pattern 1 yielded no item. The HUST
  adapter applies pattern 2 to every paragraph: on \<open>double_text\<close> pattern 1 yields the
  item (Beijing, 680) and pattern 2 yields Tianjin 660 and Beijing 680 again, so the
  parser returns Beijing 680 twice; on \<open>twice_text\<close> the two records are equal in every
  field.
\<close>

theorem hust_both_patterns:
  "format1_items (hust_paragraph 2024 zh_benkeyipi double_text) = [(zh_beijing, [], u ''680'')]
   \<and> format2_applied (hust_paragraph 2024 zh_benkeyipi double_text)
   \<and> map province_score (hust_parse_paragraph_format [plain double_text] 2024)
       = [(zh_beijing, u ''680''), (zh_tianjin, u ''660''), (zh_beijing, u ''680'')]
   \<and> format1_records (hust_paragraph 2024 zh_benkeyipi twice_text) = [hust_beijing_680]
   \<and> format2_records (hust_paragraph 2024 zh_benkeyipi twice_text) = [hust_beijing_680]
   \<and> hust_parse_paragraph_format [plain twice_text] 2024 = [hust_beijing_680, hust_beijing_680]"
  by code_simp

lemma set_py_remove: "set (py_remove old s) \<subseteq> set s"
proof (induction old s rule: py_remove.induct)
  case (1 old)
  then show ?case by simp
next
  case (2 old c cs)
  show ?case
  proof (cases "old \<noteq> [] \<and> startswith (c # cs) old")
    case True
    then have "set (py_remove old (drop (length old - 1) cs)) \<subseteq> set (drop (length old - 1) cs)"
      using 2 by simp
    moreover have "set (drop (length old - 1) cs) \<subseteq> set cs" by (rule set_drop_subset)
    ultimately show ?thesis using True by auto
  next
    case False
    then show ?thesis using 2 by auto
  qed
qed

lemma py_remove_chr: "c \<notin> set (py_remove [c] s)"
proof (induction s)
  case Nil
  then show ?case by simp
next
  case (Cons x xs)
  then show ?case by (cases "x = c") auto
qed

lemma set_py_strip: "set (py_strip s) \<subseteq> set s"
proof -
  have "set (py_rstrip t) \<subseteq> set t" for t
    unfolding py_rstrip_def using set_dropWhileD [of _ isspace_chr "rev t"] by auto
  moreover have "set (dropWhile isspace_chr s) \<subseteq> set s"
    using set_dropWhileD [of _ isspace_chr s] by auto
  ultimately show ?thesis unfolding py_strip_def by blast
qed

lemma py_in_chr: "py_in [c] s = (c \<in> set s)"
  by (induction s) auto

lemma split_head_chr: "c \<notin> set (split_head c s)"
  unfolding split_head_def by (induction s) auto

lemma set_split_head: "set (split_head c s) \<subseteq> set s"
  unfolding split_head_def by (induction s) auto

lemma remove_suffixes_subset:
  "set (remove_suffixes s) \<subseteq> set (py_remove zh_shi (py_remove zh_sheng s))"
proof -
  let ?a = "py_remove zh_shi (py_remove zh_sheng s)"
  have "set (py_remove zh_zizhiqu ?a) \<subseteq> set ?a" by (rule set_py_remove)
  moreover have "set (py_remove zh_tebiexingzhengqu (py_remove zh_zizhiqu ?a))
      \<subseteq> set (py_remove zh_zizhiqu ?a)" by (rule set_py_remove)
  moreover have "set (remove_suffixes s)
      \<subseteq> set (py_remove zh_tebiexingzhengqu (py_remove zh_zizhiqu ?a))"
    unfolding remove_suffixes_def by (rule set_py_strip)
  ultimately show ?thesis by blast
qed

lemma remove_suffixes_chars:
  "0x7701 \<notin> set (remove_suffixes s) \<and> 0x5E02 \<notin> set (remove_suffixes s)"
proof -
  have a: "0x7701 \<notin> set (py_remove zh_sheng s)"
    unfolding zh_sheng_def by (rule py_remove_chr)
  have b: "0x5E02 \<notin> set (py_remove zh_shi (py_remove zh_sheng s))"
    unfolding zh_shi_def by (rule py_remove_chr)
  have c: "0x7701 \<notin> set (py_remove zh_shi (py_remove zh_sheng s))"
    using a set_py_remove [of zh_shi "py_remove zh_sheng s"] by blast
  show ?thesis using b c remove_suffixes_subset [of s] by blast
qed

lemma hust_province_subset:
  "set (hust_province s) \<subseteq> set (remove_suffixes s) - {0xFF08}"
proof -
  define p1 where "p1 = remove_suffixes s"
  define p2 where "p2 = (if py_in zh_lparen p1 then split_head 0xFF08 p1 else p1)"
  have s2: "set p2 \<subseteq> set p1"
    unfolding p2_def using set_split_head [of "0xFF08" p1] by simp
  have n2: "0xFF08 \<notin> set p2"
  proof (cases "py_in zh_lparen p1")
    case True
    then show ?thesis unfolding p2_def using split_head_chr [of "0xFF08" p1] by simp
  next
    case False
    then show ?thesis
      unfolding p2_def using py_in_chr [of "0xFF08" p1] by (simp add: zh_lparen_def)
  qed
  have r: "set (py_strip (py_remove zh_paren_shaoshuminzu (py_remove zh_paren_hanzu p2)))
      \<subseteq> set p2"
    using set_py_strip [of "py_remove zh_paren_shaoshuminzu (py_remove zh_paren_hanzu p2)"]
      set_py_remove [of zh_paren_shaoshuminzu "py_remove zh_paren_hanzu p2"]
      set_py_remove [of zh_paren_hanzu p2] by blast
  have e: "hust_province s =
      (if py_in zh_hanzu p2 \<or> py_in zh_shaoshuminzu p2
       then py_strip (py_remove zh_paren_shaoshuminzu (py_remove zh_paren_hanzu p2)) else p2)"
    unfolding hust_province_def Let_def p1_def p2_def by (rule refl)
  have s3: "set (hust_province s) \<subseteq> set p2"
    unfolding e using r by (cases "py_in zh_hanzu p2 \<or> py_in zh_shaoshuminzu p2") simp_all
  show ?thesis using s3 s2 n2 unfolding p1_def by blast
qed

lemma hust_province_chars:
  "0x7701 \<notin> set (hust_province s) \<and> 0x5E02 \<notin> set (hust_province s)
   \<and> 0xFF08 \<notin> set (hust_province s)"
  using hust_province_subset [of s] remove_suffixes_chars [of s] by blast

lemma hust_province_examples:
  "hust_province (zh_hebei @ zh_sheng) = zh_hebei"
  "hust_province (zh_xizang @ zh_zizhiqu) = zh_xizang"
  "hust_province (zh_xinjiang @ zh_paren_shaoshuminzu) = zh_xinjiang"
  by code_simp+

lemma hust_record_province:
  "hust_create_admission_info year name category score batch major rank = Some r \<Longrightarrow>
   ai_province r = hust_province name"
  unfolding hust_create_admission_info_def Let_def by (auto split: if_splits)

lemma tsinghua_record_province:
  "tsinghua_create_admission_info year name com score batch = Some r \<Longrightarrow>
   ai_province r = remove_suffixes name"
  unfolding tsinghua_create_admission_info_def Let_def by (auto split: if_splits)

lemma pku_score_record_province:
  "r \<in> set (pku_score_record year province category cell t) \<Longrightarrow> ai_province r = province"
  unfolding pku_score_record_def pku_create_admission_info_def
  by (auto split: option.splits if_splits)

lemma pku_record_province:
  "r \<in> set (pku_row year name category a s ot) \<Longrightarrow> ai_province r = remove_suffixes name"
  unfolding pku_row_def Let_def using pku_score_record_province by auto

lemma nankai_record_province:
  "item (u ''ssmc'') = Some (JStr s) \<Longrightarrow> s \<noteq> [] \<Longrightarrow>
   nk_province (nankai_batch_item str_float year province item) = JStr s"
  by (simp add: nankai_batch_item_def Let_def j_get_default_def get_value_or_na_def)

text \<open>
  The paragraph parsers take the province from group 1 of their patterns, which is one of
  the names of the province list; the clean-up leaves each of these names as it is.
\<close>

lemma province_pattern_group1:
  assumes "m \<in> set (finditer province_pattern t)"
  shows "group m 1 \<in> set provinces"
proof -
  let ?rest = "Seq suffix_opt (Seq colon
      (Seq (Group 2 (PlusLazy (NoneOf [AChr 0xFF1B, AChr 0xFF1B])))
         (Ahead (Alt (Seq (Group 3 (alts (map lit provinces))) colon) Eos))))"
  have n: "1 \<notin> groups_of ?rest"
    by (simp add: suffix_opt_def colon_def groups_of_alts groups_of_lit)
  have a: "m \<in> set (finditer (Seq (Group 1 (alts (map lit provinces))) ?rest) t)"
    using assms unfolding province_pattern_def .
  show ?thesis by (rule finditer_group1 [OF a n])
qed

lemma province_score_pattern_group1:
  assumes "m \<in> set (finditer province_score_pattern t)"
  shows "group m 1 \<in> set provinces"
proof -
  let ?rest = "Seq suffix_opt (Seq colon (Seq (Star (OneOf [ASpace]))
      (Seq (Group 2 (Plus (OneOf [ADigit]))) (Seq (Star (OneOf [ASpace])) (lit zh_fen)))))"
  have n: "1 \<notin> groups_of ?rest"
    by (simp add: suffix_opt_def colon_def groups_of_alts groups_of_lit)
  have a: "m \<in> set (finditer (Seq (Group 1 (alts (map lit provinces))) ?rest) t)"
    using assms unfolding province_score_pattern_def .
  show ?thesis by (rule finditer_group1 [OF a n])
qed

lemma provinces_clean: "list_all (\<lambda>p. remove_suffixes p = p \<and> hust_province p = p) provinces"
  by code_simp

lemma provinces_fixed:
  assumes "p \<in> set provinces"
  shows "remove_suffixes p = p" and "hust_province p = p"
  using provinces_clean assms unfolding list_all_iff by blast+

lemma map_filter_mem:
  "r \<in> set (List.map_filter f xs) \<Longrightarrow> \<exists>x \<in> set xs. f x = Some r"
  unfolding List.map_filter_def by auto

lemma format1_items_province:
  assumes "(p, c, sc) \<in> set (concat (map items_of (format1_matches t)))"
  shows "p \<in> set provinces"
proof -
  from assms obtain m where m: "m \<in> set (format1_matches t)" and i: "(p, c, sc) \<in> set (items_of m)"
    by auto
  from m have "m \<in> set (finditer province_pattern t)"
    unfolding format1_matches_def by (cases "py_in zh_semicolon t \<or> py_in (u '';'') t") simp_all
  then have "group m 1 \<in> set provinces" by (rule province_pattern_group1)
  moreover from i have "p = group m 1" unfolding items_of_def by auto
  ultimately show ?thesis by simp
qed

lemma tsinghua_paragraph_province:
  assumes "r \<in> set (format1_records (tsinghua_paragraph year b h t))
         \<or> r \<in> set (format2_records (tsinghua_paragraph year b h t))"
  shows "ai_province r \<in> set provinces"
  using assms
proof
  assume "r \<in> set (format1_records (tsinghua_paragraph year b h t))"
  then obtain x where x: "x \<in> set (concat (map items_of (format1_matches (sub_group1 decimal_pattern t))))"
    and f: "(case x of (province_name, category_or_major, score) \<Rightarrow>
              tsinghua_create_admission_info year province_name
                (if category_or_major = []
                    \<or> category_or_major \<in> set [zh_colon, u '':'', zh_comma, u '','', zh_lun]
                 then h else category_or_major) score b) = Some r"
    unfolding tsinghua_paragraph_def Let_def
    using map_filter_mem by (fastforce simp only: para_result.simps)
  obtain p c sc where e: "x = (p, c, sc)" by (cases x) auto
  have p: "p \<in> set provinces" using x unfolding e by (rule format1_items_province)
  from f have "ai_province r = remove_suffixes p"
    unfolding e by (simp only: prod.case tsinghua_record_province)
  then show ?thesis using p provinces_fixed(1) by simp
next
  assume a: "r \<in> set (format2_records (tsinghua_paragraph year b h t))"
  let ?t = "sub_group1 decimal_pattern t"
  from a have "r \<in> set (List.map_filter
       (\<lambda>m. tsinghua_create_admission_info year (group m 1) h (group m 2) b)
       (finditer province_score_pattern ?t))"
    unfolding tsinghua_paragraph_def Let_def
    by (cases "format1_matches ?t = []") simp_all
  then obtain m where m: "m \<in> set (finditer province_score_pattern ?t)"
    and f: "tsinghua_create_admission_info year (group m 1) h (group m 2) b = Some r"
    using map_filter_mem by fastforce
  have p: "group m 1 \<in> set provinces" using m by (rule province_score_pattern_group1)
  have "ai_province r = remove_suffixes (group m 1)" using f by (rule tsinghua_record_province)
  then show ?thesis using p provinces_fixed(1) by simp
qed

lemma hust_paragraph_province:
  assumes "r \<in> set (format1_records (hust_paragraph year b t))
         \<or> r \<in> set (format2_records (hust_paragraph year b t))"
  shows "ai_province r \<in> set provinces"
  using assms
proof
  assume "r \<in> set (format1_records (hust_paragraph year b t))"
  then obtain x where x: "x \<in> set (concat (map items_of (format1_matches (sub_group1 decimal_pattern t))))"
    and f: "(case x of (province_name, category_or_major, score) \<Rightarrow>
              hust_create_admission_info year province_name
                (hust_extract_category_from_major category_or_major) score b
                category_or_major (u ''NA'')) = Some r"
    unfolding hust_paragraph_def Let_def
    using map_filter_mem by (fastforce simp only: para_result.simps)
  obtain p c sc where e: "x = (p, c, sc)" by (cases x) auto
  have p: "p \<in> set provinces" using x unfolding e by (rule format1_items_province)
  from f have "ai_province r = hust_province p"
    unfolding e by (simp only: prod.case hust_record_province)
  then show ?thesis using p provinces_fixed(2) by simp
next
  assume a: "r \<in> set (format2_records (hust_paragraph year b t))"
  let ?t = "sub_group1 decimal_pattern t"
  from a have "r \<in> set (List.map_filter
       (\<lambda>m. hust_create_admission_info year (group m 1) (u ''NA'') (group m 2) b (u ''NA'') (u ''NA''))
       (finditer province_score_pattern ?t))"
    unfolding hust_paragraph_def Let_def by (simp only: para_result.simps)
  then obtain m where m: "m \<in> set (finditer province_score_pattern ?t)"
    and f: "hust_create_admission_info year (group m 1) (u ''NA'') (group m 2) b (u ''NA'') (u ''NA'') = Some r"
    using map_filter_mem by fastforce
  have p: "group m 1 \<in> set provinces" using m by (rule province_score_pattern_group1)
  have "ai_province r = hust_province (group m 1)" using f by (rule hust_record_province)
  then show ?thesis using p provinces_fixed(2) by simp
qed

lemma tsinghua_paragraphs_province:
  "r \<in> set (tsinghua_paragraphs year ps b h) \<Longrightarrow> ai_province r \<in> set provinces"
proof (induction ps arbitrary: b h)
  case Nil
  then show ?case by simp
next
  case (Cons p ps)
  show ?case
  proof (cases "p_text p = []")
    case True
    then show ?thesis using Cons by simp
  next
    case False
    show ?thesis
    proof (cases "case p_strong p of None \<Rightarrow> None | Some batch_text \<Rightarrow> tsinghua_title batch_text")
      case None
      then have "r \<in> set (format1_records (tsinghua_paragraph year b h (p_text p)))
          \<or> r \<in> set (format2_records (tsinghua_paragraph year b h (p_text p)))
          \<or> r \<in> set (tsinghua_paragraphs year ps b h)"
        using Cons.prems False by (simp add: Let_def)
      then show ?thesis using tsinghua_paragraph_province Cons.IH by blast
    next
      case (Some bh)
      obtain b' h' where e: "bh = (b', h')" by (cases bh) auto
      have "r \<in> set (tsinghua_paragraphs year ps b' h')"
        using Cons.prems False Some unfolding e by simp
      then show ?thesis by (rule Cons.IH)
    qed
  qed
qed

lemma hust_paragraphs_province:
  "r \<in> set (hust_paragraphs year ps b) \<Longrightarrow> ai_province r \<in> set provinces"
proof (induction ps arbitrary: b)
  case Nil
  then show ?case by simp
next
  case (Cons p ps)
  show ?case
  proof (cases "p_text p = []")
    case True
    then show ?thesis using Cons by simp
  next
    case False
    show ?thesis
    proof (cases "case p_strong p of None \<Rightarrow> None | Some batch_text \<Rightarrow> hust_title batch_text")
      case None
      then have "r \<in> set (format1_records (hust_paragraph year b (p_text p)))
          \<or> r \<in> set (format2_records (hust_paragraph year b (p_text p)))
          \<or> r \<in> set (hust_paragraphs year ps b)"
        using Cons.prems False by (simp add: Let_def)
      then show ?thesis using hust_paragraph_province Cons.IH by blast
    next
      case (Some b')
      have "r \<in> set (hust_paragraphs year ps b')"
        using Cons.prems False Some by simp
      then show ?thesis by (rule Cons.IH)
    qed
  qed
qed

lemma paragraph_records_province:
  "r \<in> set (tsinghua_parse_paragraph_format ps year) \<Longrightarrow> ai_province r \<in> set provinces"
  "r \<in> set (hust_parse_paragraph_format ps year) \<Longrightarrow> ai_province r \<in> set provinces"
  unfolding tsinghua_parse_paragraph_format_def hust_parse_paragraph_format_def
  by (rule tsinghua_paragraphs_province, assumption) (rule hust_paragraphs_province, assumption)

text \<open>
  The other parsers: the text parser takes the province from its own list, a table row of
  the HUST adapter passes the cleaned cell to \<^verbatim>\<open>_create_admission_info\<close>, and the API
  adapters store what \<^verbatim>\<open>get_value_or_na\<close> gives for \<^verbatim>\<open>ssmc\<close>.
\<close>

lemma text_provinces_subset: "set text_provinces \<subseteq> set provinces"
proof -
  have "list_all (\<lambda>p. p \<in> set provinces) text_provinces" by code_simp
  then show ?thesis unfolding list_all_iff by blast
qed

lemma provinces_plain:
  "list_all (\<lambda>p. 0x7701 \<notin> set p \<and> 0x5E02 \<notin> set p \<and> 0xFF08 \<notin> set p
                \<and> \<not> py_in zh_zizhiqu p \<and> \<not> py_in zh_tebiexingzhengqu p) provinces"
  by code_simp

lemma find_in_set: "List.find P xs = Some x \<Longrightarrow> x \<in> set xs"
  by (induction xs) (auto split: if_splits)

lemma text_lines_province:
  assumes mk: "\<And>p s. ai_province (mk p s) = p"
  shows "r \<in> set (text_lines mk ls cur acc) \<Longrightarrow>
         (\<And>p. cur = Some p \<Longrightarrow> p \<in> set text_provinces) \<Longrightarrow>
         (\<And>x. x \<in> set acc \<Longrightarrow> ai_province x \<in> set text_provinces) \<Longrightarrow>
         ai_province r \<in> set text_provinces"
proof (induction ls arbitrary: cur acc)
  case Nil
  then show ?case by simp
next
  case (Cons l ls)
  define line where "line = py_strip l"
  show ?case
  proof (cases "line = []")
    case True
    then have "r \<in> set (text_lines mk ls cur acc)"
      using Cons.prems(1) unfolding line_def by simp
    then show ?thesis using Cons.prems(2,3) by (rule Cons.IH)
  next
    case False
    define found where "found = List.find (\<lambda>province. py_in province line) text_provinces"
    define cur1 where
      "cur1 = (case found of None \<Rightarrow> cur | Some province \<Rightarrow> Some province)"
    define acc1 where
      "acc1 = (case found of
                 None \<Rightarrow> acc
               | Some province \<Rightarrow>
                   (case search_score line of
                      None \<Rightarrow> acc
                    | Some score \<Rightarrow> acc @ [mk province score]))"
    define acc2 where
      "acc2 = (case cur1 of
                 None \<Rightarrow> acc1
               | Some province \<Rightarrow>
                   (if province = [] then acc1
                    else
                      (case search_score line of
                         None \<Rightarrow> acc1
                       | Some score \<Rightarrow>
                           (if list_ex (\<lambda>item. ai_province item = province
                                                \<and> ai_min_score item = score) acc1
                            then acc1
                            else acc1 @ [mk province score]))))"
    have step: "text_lines mk (l # ls) cur acc = text_lines mk ls cur1 acc2"
      using False unfolding line_def found_def cur1_def acc1_def acc2_def
      by (simp add: Let_def)
    have c1: "\<And>p. cur1 = Some p \<Longrightarrow> p \<in> set text_provinces"
    proof -
      fix p assume a: "cur1 = Some p"
      show "p \<in> set text_provinces"
      proof (cases found)
        case None
        then have "cur = Some p" using a unfolding cur1_def by simp
        then show ?thesis by (rule Cons.prems(2))
      next
        case (Some q)
        then have "q = p" using a unfolding cur1_def by simp
        moreover have "q \<in> set text_provinces"
          using Some unfolding found_def by (rule find_in_set)
        ultimately show ?thesis by simp
      qed
    qed
    have a1: "\<And>x. x \<in> set acc1 \<Longrightarrow> ai_province x \<in> set text_provinces"
    proof -
      fix x assume a: "x \<in> set acc1"
      show "ai_province x \<in> set text_provinces"
      proof (cases found)
        case None
        then have "x \<in> set acc" using a unfolding acc1_def by simp
        then show ?thesis by (rule Cons.prems(3))
      next
        case (Some q)
        have q: "q \<in> set text_provinces"
          using Some unfolding found_def by (rule find_in_set)
        show ?thesis
        proof (cases "search_score line")
          case None
          then have "x \<in> set acc" using a Some unfolding acc1_def by simp
          then show ?thesis by (rule Cons.prems(3))
        next
          case (Some score)
          then have "x \<in> set acc \<or> x = mk q score"
            using a \<open>found = Some q\<close> unfolding acc1_def by auto
          then show ?thesis using Cons.prems(3) q mk by auto
        qed
      qed
    qed
    have a2: "\<And>x. x \<in> set acc2 \<Longrightarrow> ai_province x \<in> set text_provinces"
    proof -
      fix x assume a: "x \<in> set acc2"
      show "ai_province x \<in> set text_provinces"
      proof (cases cur1)
        case None
        then have "x \<in> set acc1" using a unfolding acc2_def by simp
        then show ?thesis by (rule a1)
      next
        case (Some q)
        have q: "q \<in> set text_provinces" using Some by (rule c1)
        have "x \<in> set acc1 \<or> (\<exists>score. x = mk q score)"
          using a Some unfolding acc2_def by (auto split: if_splits option.splits)
        then show ?thesis using a1 q mk by auto
      qed
    qed
    have "r \<in> set (text_lines mk ls cur1 acc2)" using Cons.prems(1) unfolding step .
    then show ?thesis using c1 a2 by (rule Cons.IH)
  qed
qed

lemma text_record_province: "ai_province (text_record school code batch year p s) = p"
  by (simp add: text_record_def)

lemma tsinghua_text_province:
  assumes "r \<in> set (tsinghua_parse_text_content text year)"
  shows "ai_province r \<in> set provinces"
proof -
  have "ai_province r \<in> set text_provinces"
    using assms unfolding tsinghua_parse_text_content_def
    by (rule text_lines_province [OF text_record_province]) simp_all
  then show ?thesis using text_provinces_subset by blast
qed

lemma hust_text_province:
  assumes "r \<in> set (hust_parse_text_content text year)"
  shows "ai_province r \<in> set provinces"
proof -
  have "ai_province r \<in> set text_provinces"
    using assms unfolding hust_parse_text_content_def
    by (rule text_lines_province [OF text_record_province]) simp_all
  then show ?thesis using text_provinces_subset by blast
qed

lemma tsinghua_page_province:
  assumes "r \<in> set (tsinghua_parse_score_page page year)"
  shows "ai_province r \<in> set provinces"
proof (cases "pg_content page")
  case (Some ps)
  then have "r \<in> set (tsinghua_parse_paragraph_format ps year)"
    using assms unfolding tsinghua_parse_score_page_def by simp
  then show ?thesis by (rule paragraph_records_province(1))
next
  case None
  show ?thesis
  proof (cases "pg_tables page \<noteq> 0")
    case True
    then have False
      using assms None unfolding tsinghua_parse_score_page_def tsinghua_parse_table_format_def
      by simp
    then show ?thesis ..
  next
    case False
    show ?thesis
    proof (cases "pg_main page")
      case None
      then have False
        using assms \<open>pg_content page = None\<close> False unfolding tsinghua_parse_score_page_def
        by simp
      then show ?thesis ..
    next
      case (Some t)
      then have "r \<in> set (tsinghua_parse_text_content t year)"
        using assms \<open>pg_content page = None\<close> False unfolding tsinghua_parse_score_page_def
        by (simp add: Let_def split: if_splits)
      then show ?thesis by (rule tsinghua_text_province)
    qed
  qed
qed

lemma hust_table_row_province:
  assumes "hust_table_row py_float year cell col min_score batch = Some rs"
    and "r \<in> set rs"
  shows "ai_province r = hust_province (hust_province cell)"
proof -
  from assms obtain category score b m where
    "hust_create_admission_info year (hust_province cell) category score b m (u ''NA'') = Some r"
    unfolding hust_table_row_def Let_def
    by (auto split: if_splits option.splits)
  then show ?thesis by (rule hust_record_province)
qed

lemma api_record_province:
  assumes "item (u ''ssmc'') = Some (JStr s)" and "s \<noteq> []"
  shows "nk_province (nankai_batch_item str_float year province item) = JStr s"
    and "nk_province (nankai_major_item str_float year province item) = JStr s"
    and "bit_province (bit_batch_item str_float year province item) = JStr s"
    and "bit_province (bit_major_item str_float year province item) = JStr s"
  using assms
  by (simp_all add: nankai_batch_item_def nankai_major_item_def bit_batch_item_def
        bit_major_item_def Let_def j_get_default_def get_value_or_na_def)

lemma search_score_examples:
  "search_score (u ''ab12 3456 789'') = Some (u ''3456'')"
  "search_score (u ''ab12'') = None"
  by code_simp+

lemma hust_clean_score_examples:
  "hust_clean_score float_of_sample (u ''x650.75y'') = Some (Some (u ''650''))"
  "hust_clean_score float_of_sample (u ''-'') = Some None"
  "hust_clean_score float_of_sample (u ''abc'') = Some None"
  "hust_clean_score float_of_sample (u ''9'') = None"
  by code_simp+

text \<open>
  The text parser on six lines: a score before any province is dropped, a line without a
  province goes to the current one, and of two provinces in a line the first of the list
  is taken.
\<close>

lemma hust_text_example:
  "map province_score (hust_parse_text_content
     [0x78, 0x20, 0x37, 0x30, 0x30, 0xA, 0x5317, 0x4EAC, 0x20, 0x36, 0x38, 0x30, 0xA, 0x20,
      0x36, 0x37, 0x35, 0x20, 0xA, 0xA, 0x5929, 0x6D25, 0x6CB3, 0x5317, 0x20, 0x31, 0x32,
      0x20, 0x36, 0x36, 0x30, 0x31, 0xA, 0x36, 0x38, 0x30] 2024)
   = [(zh_beijing, u ''680''), (zh_beijing, u ''675''), (zh_tianjin, u ''6601''),
      (zh_tianjin, u ''680'')]"
  by code_simp

lemma hust_table_row_examples:
  "map_option (map ai_province)
     (hust_table_row float_of_sample 2024 (zh_hebei @ zh_sheng) [] (u ''650.75'')
        zh_benkeyipi) = Some [zh_hebei]"
  "map_option (map ai_province)
     (hust_table_row float_of_sample 2024 (zh_xizang @ zh_zizhiqu) [] (u ''650.75'')
        zh_benkeyipi) = Some [zh_xizang]"
  "map_option (map ai_province)
     (hust_table_row float_of_sample 2024 (zh_xinjiang @ zh_paren_shaoshuminzu) []
        (u ''650.75'') zh_benkeyipi) = Some [zh_xinjiang]"
  by code_simp+

text \<open>
  Claim C7, as stated, fails: the PKU adapter keeps the parenthesised qualifier of
  "Xinjiang (ethnic minorities)", and the Nankai and the BIT adapter store "Hebei sheng"
  as the API gives it.
\<close>

theorem province_not_normalised:
  "map ai_province (pku_row 2024 (zh_xinjiang @ zh_paren_shaoshuminzu) [] (u ''650'') [] [])
     = [zh_xinjiang @ zh_paren_shaoshuminzu]
   \<and> nk_province (nankai_batch_item float_text_sample 2024 zh_hebei fractional_item)
     = JStr (zh_hebei @ zh_sheng)
   \<and> bit_province (bit_batch_item float_text_sample 2024 zh_hebei fractional_item)
     = JStr (zh_hebei @ zh_sheng)"
  by code_simp

text \<open>
  Claim C7, amended. A record of the Tsinghua adapter, and a record of the paragraph
  parser or of the text parser of the HUST adapter, has as source province one of the 31
  names of the adapters' province list; none of these names holds U+7701, U+5E02, U+FF08
  or one of the two longer suffixes. A record of a table row of the HUST adapter has the
  province cell after the HUST clean-up (every U+7701 and U+5E02 removed, then the two
  longer suffixes, the text cut at the first full-width opening parenthesis): no U+7701,
  U+5E02 or U+FF08 is left in it, and "Hebei sheng" becomes "Hebei", "Xizang zizhiqu"
  "Xizang", "Xinjiang (ethnic minorities)" "Xinjiang". A record of the PKU adapter has
  the province cell with the suffixes removed only. A record of the Nankai or of the BIT
  adapter, from the general list or from the list of majors, has the non-empty
  \<^verbatim>\<open>ssmc\<close> string of the API unchanged.
\<close>

theorem province_cleanup:
  "(tr \<in> set (tsinghua_parse_score_page page year) \<longrightarrow> ai_province tr \<in> set provinces)
   \<and> (hr \<in> set (hust_parse_paragraph_format hps year) \<longrightarrow>
        ai_province hr \<in> set provinces)
   \<and> (hx \<in> set (hust_parse_text_content htext year) \<longrightarrow>
        ai_province hx \<in> set provinces)
   \<and> list_all (\<lambda>p. 0x7701 \<notin> set p \<and> 0x5E02 \<notin> set p \<and> 0xFF08 \<notin> set p
                   \<and> \<not> py_in zh_zizhiqu p \<and> \<not> py_in zh_tebiexingzhengqu p) provinces
   \<and> (hust_table_row py_float year cell col min_score batch = Some rs \<and> r \<in> set rs \<longrightarrow>
        ai_province r = hust_province (hust_province cell)
        \<and> 0x7701 \<notin> set (ai_province r) \<and> 0x5E02 \<notin> set (ai_province r)
        \<and> 0xFF08 \<notin> set (ai_province r))
   \<and> map_option (map ai_province)
        (hust_table_row float_of_sample 2024 (zh_hebei @ zh_sheng) [] (u ''650.75'')
           zh_benkeyipi) = Some [zh_hebei]
   \<and> map_option (map ai_province)
        (hust_table_row float_of_sample 2024 (zh_xizang @ zh_zizhiqu) [] (u ''650.75'')
           zh_benkeyipi) = Some [zh_xizang]
   \<and> map_option (map ai_province)
        (hust_table_row float_of_sample 2024 (zh_xinjiang @ zh_paren_shaoshuminzu) []
           (u ''650.75'') zh_benkeyipi) = Some [zh_xinjiang]
   \<and> (r3 \<in> set (pku_row year name category a s ot) \<longrightarrow>
        ai_province r3 = remove_suffixes name \<and> 0x7701 \<notin> set (ai_province r3)
        \<and> 0x5E02 \<notin> set (ai_province r3))
   \<and> (item (u ''ssmc'') = Some (JStr t) \<and> t \<noteq> [] \<longrightarrow>
        nk_province (nankai_batch_item str_float year province item) = JStr t
        \<and> nk_province (nankai_major_item str_float year province item) = JStr t
        \<and> bit_province (bit_batch_item str_float year province item) = JStr t
        \<and> bit_province (bit_major_item str_float year province item) = JStr t)"
proof -
  have tp: "tr \<in> set (tsinghua_parse_score_page page year) \<longrightarrow>
      ai_province tr \<in> set provinces"
    using tsinghua_page_province [of tr page year] by blast
  have hp: "hr \<in> set (hust_parse_paragraph_format hps year) \<longrightarrow>
      ai_province hr \<in> set provinces"
    using paragraph_records_province(2) [of hr hps year] by blast
  have hx: "hx \<in> set (hust_parse_text_content htext year) \<longrightarrow>
      ai_province hx \<in> set provinces"
    using hust_text_province [of hx htext year] by blast
  have ht: "hust_table_row py_float year cell col min_score batch = Some rs \<and> r \<in> set rs \<longrightarrow>
      ai_province r = hust_province (hust_province cell)
      \<and> 0x7701 \<notin> set (ai_province r) \<and> 0x5E02 \<notin> set (ai_province r)
      \<and> 0xFF08 \<notin> set (ai_province r)"
    using hust_table_row_province [of py_float year cell col min_score batch rs r]
      hust_province_chars [of "hust_province cell"] by simp
  have pk: "r3 \<in> set (pku_row year name category a s ot) \<longrightarrow>
      ai_province r3 = remove_suffixes name \<and> 0x7701 \<notin> set (ai_province r3)
      \<and> 0x5E02 \<notin> set (ai_province r3)"
    using pku_record_province [of r3 year name category a s ot]
      remove_suffixes_chars [of name] by simp
  have api: "item (u ''ssmc'') = Some (JStr t) \<and> t \<noteq> [] \<longrightarrow>
      nk_province (nankai_batch_item str_float year province item) = JStr t
      \<and> nk_province (nankai_major_item str_float year province item) = JStr t
      \<and> bit_province (bit_batch_item str_float year province item) = JStr t
      \<and> bit_province (bit_major_item str_float year province item) = JStr t"
    using api_record_province [of item t str_float year province] by blast
  show ?thesis
    using tp hp hx provinces_plain ht hust_table_row_examples pk api by blast
qed

theorem province_cleanup_witness:
  "ai_province (hd (tsinghua_parse_score_page
      \<lparr> pg_content = Some [title_paragraph, plain ascii_paragraph], pg_tables = 0,
        pg_main = None \<rparr> 2024)) \<in> set provinces
   \<and> ai_province (hd (hust_parse_paragraph_format
        [plain (zh_beijing @ zh_colon @ u ''680'' @ zh_fen)] 2024)) \<in> set provinces
   \<and> ai_province (hd (hust_parse_text_content (zh_beijing @ u '' 680'') 2024))
        \<in> set provinces
   \<and> ai_province (hd (the (hust_table_row float_of_sample 2024
        (zh_xinjiang @ zh_paren_shaoshuminzu) [] (u ''650.75'') zh_benkeyipi))) = zh_xinjiang
   \<and> ai_province (hd (pku_row 2024 (zh_hebei @ zh_sheng) [] (u ''650'') [] [])) = zh_hebei
   \<and> nk_province (nankai_batch_item float_text_sample 2024 zh_hebei fractional_item)
      = JStr (zh_hebei @ zh_sheng)
   \<and> bit_province (bit_batch_item float_text_sample 2024 zh_hebei fractional_item)
      = JStr (zh_hebei @ zh_sheng)"
proof -
  let ?page = "\<lparr> pg_content = Some [title_paragraph, plain ascii_paragraph], pg_tables = 0,
      pg_main = None \<rparr>"
  let ?row = "hust_table_row float_of_sample 2024 (zh_xinjiang @ zh_paren_shaoshuminzu) []
      (u ''650.75'') zh_benkeyipi"
  have pe: "tsinghua_parse_score_page ?page 2024
      = tsinghua_parse_paragraph_format [title_paragraph, plain ascii_paragraph] 2024"
    by (simp add: tsinghua_parse_score_page_def)
  have "tsinghua_parse_paragraph_format [title_paragraph, plain ascii_paragraph] 2024
      \<noteq> []"
    using tsinghua_ascii_paragraph by auto
  then have f: "hd (tsinghua_parse_score_page ?page 2024)
      \<in> set (tsinghua_parse_score_page ?page 2024)"
    unfolding pe by (rule hd_in_set)
  have "hust_parse_paragraph_format
      [plain (zh_beijing @ zh_colon @ u ''680'' @ zh_fen)] 2024 \<noteq> []"
    by code_simp
  then have g: "hd (hust_parse_paragraph_format
        [plain (zh_beijing @ zh_colon @ u ''680'' @ zh_fen)] 2024)
      \<in> set (hust_parse_paragraph_format
        [plain (zh_beijing @ zh_colon @ u ''680'' @ zh_fen)] 2024)"
    by (rule hd_in_set)
  have "hust_parse_text_content (zh_beijing @ u '' 680'') 2024 \<noteq> []"
    by code_simp
  then have x: "hd (hust_parse_text_content (zh_beijing @ u '' 680'') 2024)
      \<in> set (hust_parse_text_content (zh_beijing @ u '' 680'') 2024)"
    by (rule hd_in_set)
  have rw: "?row = Some (the ?row)" "the ?row \<noteq> []"
    "hust_province (hust_province (zh_xinjiang @ zh_paren_shaoshuminzu)) = zh_xinjiang"
    by code_simp+
  have rh: "hd (the ?row) \<in> set (the ?row)"
    using rw(2) by (rule hd_in_set)
  have c: "hd (pku_row 2024 (zh_hebei @ zh_sheng) [] (u ''650'') [] [])
      \<in> set (pku_row 2024 (zh_hebei @ zh_sheng) [] (u ''650'') [] [])"
    by code_simp
  have d: "fractional_item (u ''ssmc'') = Some (JStr (zh_hebei @ zh_sheng))"
    "zh_hebei @ zh_sheng \<noteq> []"
    by code_simp+
  have e: "remove_suffixes (zh_hebei @ zh_sheng) = zh_hebei"
    by code_simp
  note t1 = province_cleanup [where year = 2024 and page = ?page
      and tr = "hd (tsinghua_parse_score_page ?page 2024)"
      and hps = "[plain (zh_beijing @ zh_colon @ u ''680'' @ zh_fen)]"
      and hr = "hd (hust_parse_paragraph_format
          [plain (zh_beijing @ zh_colon @ u ''680'' @ zh_fen)] 2024)"
      and htext = "zh_beijing @ u '' 680''"
      and hx = "hd (hust_parse_text_content (zh_beijing @ u '' 680'') 2024)"
      and py_float = float_of_sample and cell = "zh_xinjiang @ zh_paren_shaoshuminzu"
      and col = "[]" and min_score = "u ''650.75''" and batch = zh_benkeyipi
      and rs = "the ?row" and r = "hd (the ?row)"
      and name = "zh_hebei @ zh_sheng" and category = "[]" and a = "u ''650''"
      and s = "[]" and ot = "[]"
      and ?r3.0 = "hd (pku_row 2024 (zh_hebei @ zh_sheng) [] (u ''650'') [] [])"
      and item = fractional_item and t = "zh_hebei @ zh_sheng"
      and str_float = float_text_sample and province = zh_hebei]
  have w1: "ai_province (hd (tsinghua_parse_score_page ?page 2024)) \<in> set provinces"
    using t1 f by blast
  have w2: "ai_province (hd (hust_parse_paragraph_format
      [plain (zh_beijing @ zh_colon @ u ''680'' @ zh_fen)] 2024)) \<in> set provinces"
    using t1 g by blast
  have w3: "ai_province (hd (hust_parse_text_content (zh_beijing @ u '' 680'') 2024))
      \<in> set provinces"
    using t1 x by blast
  have "ai_province (hd (the ?row))
      = hust_province (hust_province (zh_xinjiang @ zh_paren_shaoshuminzu))"
    using t1 rw(1) rh by blast
  then have w4: "ai_province (hd (the ?row)) = zh_xinjiang"
    unfolding rw(3) .
  have "ai_province (hd (pku_row 2024 (zh_hebei @ zh_sheng) [] (u ''650'') [] []))
      = remove_suffixes (zh_hebei @ zh_sheng)"
    using t1 c by blast
  then have w5: "ai_province (hd (pku_row 2024 (zh_hebei @ zh_sheng) [] (u ''650'') [] []))
      = zh_hebei"
    unfolding e .
  have w6: "nk_province (nankai_batch_item float_text_sample 2024 zh_hebei fractional_item)
        = JStr (zh_hebei @ zh_sheng)
      \<and> bit_province (bit_batch_item float_text_sample 2024 zh_hebei fractional_item)
        = JStr (zh_hebei @ zh_sheng)"
    using t1 d by blast
  show ?thesis using w1 w2 w3 w4 w5 w6 by blast
qed

end
